theory Spec2Isabelle
  imports Complex_Main "HOL-Library.AList"
begin

section \<open>Python values used by the toolkit\<close>

text \<open>
  The toolkit is Python. Its floats are modelled as exact reals: every formula below is the
  one the source writes, evaluated without rounding. Its strings are lists of characters,
  \<open>len\<close> being the length of the list. Exceptions are values: the classes that the modelled
  code can raise, and the two \<open>BaseException\<close> classes that \<open>except Exception\<close> lets through.
\<close>

datatype py_exception =
    KeyError
  | IndexError
  | ZeroDivisionError
  | TypeError
  | AttributeError
  | IntegrityError
  | OperationalError
  | KeyboardInterrupt
  | SystemExit

text \<open>\<open>isinstance(e, Exception)\<close>: false exactly for the classes derived from
  \<open>BaseException\<close> alone.\<close>

fun is_Exception :: "py_exception \<Rightarrow> bool" where
  "is_Exception KeyboardInterrupt = False"
| "is_Exception SystemExit = False"
| "is_Exception _ = True"

text \<open>\<open>xs[i]\<close>: an index from \<open>-len(xs)\<close> to \<open>-1\<close> reads from the end; outside
  \<open>-len(xs) .. len(xs) - 1\<close> the read raises.\<close>

definition py_index :: "'a list \<Rightarrow> int \<Rightarrow> py_exception + 'a" where
  "py_index xs i =
     (if 0 \<le> i \<and> i < int (length xs) then Inr (xs ! nat i)
      else if - int (length xs) \<le> i \<and> i < 0 then Inr (xs ! nat (int (length xs) + i))
      else Inl IndexError)"

text \<open>\<open>xs[:k]\<close>: a negative bound counts from the end, and the slice never raises.\<close>

definition py_slice_to :: "'a list \<Rightarrow> int \<Rightarrow> 'a list" where
  "py_slice_to xs k =
     (if 0 \<le> k then take (nat k) xs else take (nat (int (length xs) + k)) xs)"

text \<open>\<open>int(x)\<close> on a float truncates toward zero.\<close>

definition py_int :: "real \<Rightarrow> int" where
  "py_int x = (if 0 \<le> x then \<lfloor>x\<rfloor> else \<lceil>x\<rceil>)"

section \<open>utils.py\<close>

definition calculate_duration_ms :: "real \<Rightarrow> real \<Rightarrow> real" where
  "calculate_duration_ms start_time end_time = (end_time - start_time) * 1000"

definition truncate_string :: "string \<Rightarrow> int \<Rightarrow> string" where
  "truncate_string text max_length =
     (if int (length text) \<le> max_length then text
      else py_slice_to text (max_length - 3) @ ''...'')"

definition safe_divide :: "real \<Rightarrow> real \<Rightarrow> real \<Rightarrow> real" where
  "safe_divide numerator denominator dflt =
     (if denominator \<noteq> 0 then numerator / denominator else dflt)"

section \<open>config.py\<close>

text \<open>One entry of the pricing table: the values under the keys \<open>"input"\<close> and
  \<open>"output"\<close>, in USD per million tokens.\<close>

record pricing =
  input_price :: real
  output_price :: real

definition GROQ_PRICING :: "(string \<times> pricing) list" where
  "GROQ_PRICING =
    [(''llama3-8b-8192'', \<lparr>input_price = 0.05, output_price = 0.08\<rparr>),
     (''llama3-70b-8192'', \<lparr>input_price = 0.59, output_price = 0.79\<rparr>),
     (''llama-3.1-8b-instant'', \<lparr>input_price = 0.05, output_price = 0.08\<rparr>),
     (''llama-3.1-70b-versatile'', \<lparr>input_price = 0.59, output_price = 0.79\<rparr>),
     (''llama-3.2-1b-preview'', \<lparr>input_price = 0.04, output_price = 0.04\<rparr>),
     (''llama-3.2-3b-preview'', \<lparr>input_price = 0.06, output_price = 0.06\<rparr>),
     (''llama-3.2-11b-vision-preview'', \<lparr>input_price = 0.18, output_price = 0.18\<rparr>),
     (''llama-3.2-90b-vision-preview'', \<lparr>input_price = 0.90, output_price = 0.90\<rparr>),
     (''llama-3.3-70b-versatile'', \<lparr>input_price = 0.59, output_price = 0.79\<rparr>),
     (''mixtral-8x7b-32768'', \<lparr>input_price = 0.24, output_price = 0.24\<rparr>),
     (''gemma-7b-it'', \<lparr>input_price = 0.07, output_price = 0.07\<rparr>),
     (''gemma2-9b-it'', \<lparr>input_price = 0.20, output_price = 0.20\<rparr>)]"

definition DEFAULT_PRICING :: pricing where
  "DEFAULT_PRICING = \<lparr>input_price = 0.10, output_price = 0.10\<rparr>"

text \<open>\<open>GROQ_PRICING.get(model, DEFAULT_PRICING)\<close>.\<close>

definition pricing_for :: "string \<Rightarrow> pricing" where
  "pricing_for model =
     (case map_of GROQ_PRICING model of Some p \<Rightarrow> p | None \<Rightarrow> DEFAULT_PRICING)"

definition calculate_cost :: "string \<Rightarrow> int \<Rightarrow> int \<Rightarrow> real" where
  "calculate_cost model input_tokens output_tokens =
     (let pricing = pricing_for model;
          input_cost = (real_of_int input_tokens / 1000000) * input_price pricing;
          output_cost = (real_of_int output_tokens / 1000000) * output_price pricing
      in input_cost + output_cost)"

definition MAX_PROMPT_LENGTH :: int where
  "MAX_PROMPT_LENGTH = 10000"

definition MAX_RESPONSE_LENGTH :: int where
  "MAX_RESPONSE_LENGTH = 10000"

section \<open>tracers/context.py\<close>

text \<open>
  One logical path (one thread) owns one \<open>trace_context\<close>: the thread-local stack, whose
  top is the last element, and the thread-local session id. A thread that has not touched
  the stack yet has the empty one, which is what \<open>_ensure_stack\<close> creates.
\<close>

datatype jval = JStr string | JList "string list"

type_synonym metadata = "(string \<times> jval) list"

record frame =
  fr_trace_id :: string
  fr_trace_type :: string
  fr_name :: string
  fr_start_time :: real
  fr_parent_trace_id :: "string option"
  fr_metadata :: metadata

record trace_context =
  local_stack :: "frame list"
  local_session_id :: "string option"

definition get_current_trace_id :: "trace_context \<Rightarrow> string option" where
  "get_current_trace_id c =
     (if local_stack c \<noteq> [] then Some (fr_trace_id (last (local_stack c))) else None)"

definition get_current_trace :: "trace_context \<Rightarrow> frame option" where
  "get_current_trace c = (if local_stack c \<noteq> [] then Some (last (local_stack c)) else None)"

definition push_trace ::
  "string \<Rightarrow> string \<Rightarrow> string \<Rightarrow> real \<Rightarrow> metadata option \<Rightarrow> trace_context \<Rightarrow> trace_context" where
  "push_trace trace_id trace_type name start_time metadata c =
     (let trace_context =
            \<lparr>fr_trace_id = trace_id, fr_trace_type = trace_type, fr_name = name,
             fr_start_time = start_time,
             fr_parent_trace_id = get_current_trace_id c,
             fr_metadata = (case metadata of None \<Rightarrow> [] | Some m \<Rightarrow> m)\<rparr>
      in c\<lparr>local_stack := local_stack c @ [trace_context]\<rparr>)"

definition pop_trace :: "trace_context \<Rightarrow> frame option \<times> trace_context" where
  "pop_trace c =
     (if local_stack c \<noteq> [] then
        (Some (last (local_stack c)), c\<lparr>local_stack := butlast (local_stack c)\<rparr>)
      else (None, c))"

definition get_parent_trace_id :: "trace_context \<Rightarrow> string option" where
  "get_parent_trace_id c =
     (case get_current_trace c of Some trace \<Rightarrow> fr_parent_trace_id trace | None \<Rightarrow> None)"

definition get_stack_depth :: "trace_context \<Rightarrow> nat" where
  "get_stack_depth c = length (local_stack c)"

section \<open>storage/database.py: the tables\<close>

text \<open>
  The SQLite tables that the repositories write and the metrics read, as lists of rows in
  insertion order. A column that may be \<open>NULL\<close> is an option. The \<open>metadata\<close> and \<open>data\<close>
  columns hold the dictionary that \<open>serialize_to_json\<close> renders, not its JSON text.
\<close>

record trace_row =
  tr_trace_id :: string
  tr_parent_trace_id :: "string option"
  tr_session_id :: "string option"
  tr_trace_type :: string
  tr_name :: string
  tr_start_time :: real
  tr_end_time :: "real option"
  tr_duration_ms :: "real option"
  tr_status :: string
  tr_error_message :: "string option"
  tr_metadata :: "metadata option"

record llm_call_row =
  lc_trace_id :: string
  lc_model :: string
  lc_provider :: string
  lc_prompt :: string
  lc_system_prompt :: "string option"
  lc_response :: string
  lc_input_tokens :: "int option"
  lc_output_tokens :: "int option"
  lc_total_tokens :: "int option"
  lc_cost_usd :: real

record event_row =
  ev_trace_id :: string
  ev_event_type :: string
  ev_event_name :: string
  ev_timestamp :: real
  ev_data :: "(string \<times> string) list option"

record database =
  traces :: "trace_row list"
  llm_calls :: "llm_call_row list"
  events :: "event_row list"

section \<open>metrics: the filters shared by the queries\<close>

text \<open>
  \<open>if hours: end_time = time.time(); start_time = end_time - hours * 3600\<close>, with the
  reading of the clock passed as \<open>now\<close>. A bound is then applied only when it is truthy
  (\<open>if start_time:\<close>), so neither \<open>None\<close> nor \<open>0\<close> filters.
\<close>

definition time_range ::
  "real \<Rightarrow> real option \<Rightarrow> real option \<Rightarrow> int option \<Rightarrow> real option \<times> real option" where
  "time_range now start_time end_time hours =
     (case hours of
        None \<Rightarrow> (start_time, end_time)
      | Some h \<Rightarrow>
          if h \<noteq> 0 then (Some (now - real_of_int h * 3600), Some now)
          else (start_time, end_time))"

definition in_time_range :: "real option \<times> real option \<Rightarrow> trace_row \<Rightarrow> bool" where
  "in_time_range r t =
     ((case fst r of None \<Rightarrow> True
       | Some s \<Rightarrow> if s \<noteq> 0 then tr_start_time t \<ge> s else True) \<and>
      (case snd r of None \<Rightarrow> True
       | Some e \<Rightarrow> if e \<noteq> 0 then tr_start_time t \<le> e else True))"

definition has_trace_type :: "string option \<Rightarrow> trace_row \<Rightarrow> bool" where
  "has_trace_type trace_type t =
     (case trace_type of None \<Rightarrow> True
      | Some ty \<Rightarrow> if ty \<noteq> [] then tr_trace_type t = ty else True)"

section \<open>metrics/error_detector.py\<close>

text \<open>
  \<open>get_error_rate\<close>: the query returns one row, \<open>COUNT(*)\<close> and the \<open>SUM\<close> of the error
  flags, which is \<open>NULL\<close> over no rows. Dividing \<open>None\<close> would raise \<open>TypeError\<close>.
\<close>

definition get_error_rate ::
  "database \<Rightarrow> real \<Rightarrow> real option \<Rightarrow> real option \<Rightarrow> int option \<Rightarrow> string option
     \<Rightarrow> py_exception + real" where
  "get_error_rate db now start_time end_time hours trace_type =
     (let r = time_range now start_time end_time hours;
          rows = filter (\<lambda>t. in_time_range r t \<and> has_trace_type trace_type t) (traces db);
          total_requests = length rows;
          error_count =
            (if rows = [] then None
             else Some (sum_list (map (\<lambda>t. if tr_status t = ''error'' then 1 else 0) rows)))
      in if total_requests > 0 then
           (case error_count of
              None \<Rightarrow> Inl TypeError
            | Some errors \<Rightarrow> Inr ((real errors / real total_requests) * 100))
         else Inr 0)"

text \<open>
  \<open>get_error_rate_over_time\<close> groups the traces by time bucket in SQL and then computes
  each bucket's rate in Python. The grouped rows, in ascending bucket order, are the
  parameter \<open>results\<close> here; the Python loop is modelled.
\<close>

record bucket_row =
  b_time_bucket :: string
  b_total_count :: nat
  b_error_count :: nat

record rate_row = bucket_row +
  b_error_rate :: real

definition get_error_rate_over_time :: "bucket_row list \<Rightarrow> rate_row list" where
  "get_error_rate_over_time results =
     map (\<lambda>result.
            \<lparr>b_time_bucket = b_time_bucket result, b_total_count = b_total_count result,
             b_error_count = b_error_count result,
             b_error_rate =
               safe_divide (real (b_error_count result)) (real (b_total_count result)) 0 * 100\<rparr>)
         results"

record anomaly =
  a_time_bucket :: string
  a_error_rate :: real
  a_threshold :: real
  a_deviation :: real

text \<open>\<open>variance ** 0.5\<close> is the square root: the variance is never negative.\<close>

definition detect_anomalies :: "bucket_row list \<Rightarrow> real \<Rightarrow> anomaly list" where
  "detect_anomalies results threshold_multiplier =
     (let error_rates = get_error_rate_over_time results
      in if length error_rates < 3 then []
         else
           let rates = map b_error_rate error_rates;
               mean_rate = sum_list rates / real (length rates);
               variance = sum_list (map (\<lambda>r. (r - mean_rate) ^ 2) rates) / real (length rates);
               std_dev = sqrt variance;
               thr = mean_rate + (threshold_multiplier * std_dev)
           in map (\<lambda>result.
                     \<lparr>a_time_bucket = b_time_bucket result, a_error_rate = b_error_rate result,
                      a_threshold = thr, a_deviation = b_error_rate result - mean_rate\<rparr>)
                  (filter (\<lambda>result. b_error_rate result > thr) error_rates))"

section \<open>metrics/latency_tracker.py\<close>

text \<open>
  The duration query of \<open>get_percentiles\<close>: the non-\<open>NULL\<close> durations of the traces that
  pass the filters, joined with the model's call rows when a model is given, in ascending
  order.
\<close>

definition duration_query ::
  "database \<Rightarrow> real option \<times> real option \<Rightarrow> string option \<Rightarrow> string option \<Rightarrow> real list" where
  "duration_query db r trace_type model =
     sort (concat (map
       (\<lambda>t. case tr_duration_ms t of
              None \<Rightarrow> []
            | Some d \<Rightarrow>
                if in_time_range r t \<and> has_trace_type trace_type t then
                  (case model of
                     None \<Rightarrow> [d]
                   | Some m \<Rightarrow>
                       if m \<noteq> [] then
                         map (\<lambda>c. d)
                           (filter (\<lambda>c. lc_trace_id c = tr_trace_id t \<and> lc_model c = m)
                              (llm_calls db))
                       else [d])
                else [])
       (traces db)))"

definition percentile :: "real list \<Rightarrow> real \<Rightarrow> py_exception + real" where
  "percentile data p =
     (if data = [] then Inr 0
      else
        let k = (real (length data) - 1) * p;
            f = py_int k;
            c = py_int k + 1
        in if c \<ge> int (length data) then py_index data f
           else
             (case py_index data f of
                Inl e \<Rightarrow> Inl e
              | Inr d0 \<Rightarrow>
                  (case py_index data c of
                     Inl e \<Rightarrow> Inl e
                   | Inr d1 \<Rightarrow> Inr (d0 + (d1 - d0) * (k - real_of_int f)))))"

record percentiles =
  p50 :: real
  p95 :: real
  p99 :: real

definition get_percentiles ::
  "database \<Rightarrow> real \<Rightarrow> real option \<Rightarrow> real option \<Rightarrow> int option \<Rightarrow> string option
     \<Rightarrow> string option \<Rightarrow> py_exception + percentiles" where
  "get_percentiles db now start_time end_time hours trace_type model =
     (let results = duration_query db (time_range now start_time end_time hours) trace_type model
      in if results = [] then Inr \<lparr>p50 = 0, p95 = 0, p99 = 0\<rparr>
         else
           let durations = results
           in (case percentile durations 0.50 of
                 Inl e \<Rightarrow> Inl e
               | Inr a \<Rightarrow>
                   (case percentile durations 0.95 of
                      Inl e \<Rightarrow> Inl e
                    | Inr b \<Rightarrow>
                        (case percentile durations 0.99 of
                           Inl e \<Rightarrow> Inl e
                         | Inr c \<Rightarrow> Inr \<lparr>p50 = a, p95 = b, p99 = c\<rparr>))))"

text \<open>
  \<open>get_latency_distribution\<close>. \<open>filtered_durations\<close> is the set both of its queries range
  over: a \<open>NULL\<close> duration fails every comparison. \<open>MIN\<close> and \<open>MAX\<close> over no rows are
  \<open>NULL\<close>; \<open>not results[0]["min_latency"]\<close> holds for \<open>NULL\<close> and for \<open>0\<close>.
\<close>

definition filtered_durations :: "database \<Rightarrow> real option \<times> real option \<Rightarrow> real list" where
  "filtered_durations db r =
     concat (map (\<lambda>t. case tr_duration_ms t of
                         None \<Rightarrow> []
                       | Some d \<Rightarrow> if in_time_range r t then [d] else [])
                 (traces db))"

definition sql_min :: "real list \<Rightarrow> real option" where
  "sql_min ds = (case ds of [] \<Rightarrow> None | d # rest \<Rightarrow> Some (fold min rest d))"

definition sql_max :: "real list \<Rightarrow> real option" where
  "sql_max ds = (case ds of [] \<Rightarrow> None | d # rest \<Rightarrow> Some (fold max rest d))"

record hist_bucket =
  h_bucket_min :: real
  h_bucket_max :: real
  h_count :: nat

definition histogram :: "real list \<Rightarrow> real \<Rightarrow> real \<Rightarrow> int \<Rightarrow> py_exception + hist_bucket list" where
  "histogram ds min_lat max_lat num_buckets =
     (if num_buckets = 0 then Inl ZeroDivisionError
      else
        let bucket_width = (max_lat - min_lat) / real_of_int num_buckets
        in Inr (map (\<lambda>i.
                  let bmin = min_lat + (real i * bucket_width);
                      bmax = bmin + bucket_width
                  in \<lparr>h_bucket_min = bmin, h_bucket_max = bmax,
                      h_count = length (filter (\<lambda>d. d \<ge> bmin \<and> d < bmax) ds)\<rparr>)
                [0..<nat num_buckets]))"

definition get_latency_distribution ::
  "database \<Rightarrow> real \<Rightarrow> real option \<Rightarrow> real option \<Rightarrow> int option \<Rightarrow> int
     \<Rightarrow> py_exception + hist_bucket list" where
  "get_latency_distribution db now start_time end_time hours num_buckets =
     (let ds = filtered_durations db (time_range now start_time end_time hours)
      in case (sql_min ds, sql_max ds) of
           (Some min_lat, Some max_lat) \<Rightarrow>
             if min_lat = 0 then Inr [] else histogram ds min_lat max_lat num_buckets
         | _ \<Rightarrow> Inr [])"

section \<open>tracers/observability_callback.py: state and effects\<close>

text \<open>
  The state that one \<open>ObservabilityCallback\<close> works on, for one logical path: its two
  run-correlation dictionaries, the path's trace context, the database, the metadata given
  at construction and the two logging flags of the configuration. Three inputs come from
  outside and are part of the state as schedules: \<open>uuids n\<close> is the string that the
  \<open>n\<close>-th call of \<open>uuid.uuid4\<close> yields, \<open>clock n\<close> the \<open>n\<close>-th reading of \<open>time.time\<close>, and
  \<open>db_faults n\<close> tells whether the \<open>n\<close>-th write to the database fails for a reason of its
  own (a locked or full database). \<open>printed\<close> is what \<open>_safe_execute\<close> has printed.
\<close>

record callback_state =
  run_id_to_trace_id :: "string \<rightharpoonup> string"
  run_start_times :: "string \<rightharpoonup> real"
  ctx :: trace_context
  store :: database
  global_metadata :: metadata
  enable_prompt_logging :: bool
  enable_response_logging :: bool
  uuids :: "nat \<Rightarrow> string"
  uuid_calls :: nat
  clock :: "nat \<Rightarrow> real"
  clock_calls :: nat
  db_faults :: "nat \<Rightarrow> bool"
  db_writes :: nat
  printed :: "py_exception list"

text \<open>
  A method either returns a value or raises; in both cases the mutations made so far
  stay. \<open>and_then\<close> is sequencing: a raise skips the rest.
\<close>

datatype 'a outcome = Returns 'a callback_state | Raises py_exception callback_state

type_synonym 'a action = "callback_state \<Rightarrow> 'a outcome"

definition and_then :: "'a action \<Rightarrow> ('a \<Rightarrow> 'b action) \<Rightarrow> 'b action" where
  "and_then m f s = (case m s of Returns x s' \<Rightarrow> f x s' | Raises e s' \<Rightarrow> Raises e s')"

definition gets :: "(callback_state \<Rightarrow> 'a) \<Rightarrow> 'a action" where
  "gets f s = Returns (f s) s"

definition modify :: "(callback_state \<Rightarrow> callback_state) \<Rightarrow> unit action" where
  "modify f s = Returns () (f s)"

definition lift_result :: "py_exception + 'a \<Rightarrow> 'a action" where
  "lift_result r s = (case r of Inl e \<Rightarrow> Raises e s | Inr x \<Rightarrow> Returns x s)"

definition generate_trace_id :: "string action" where
  "generate_trace_id s = Returns (uuids s (uuid_calls s)) (s\<lparr>uuid_calls := Suc (uuid_calls s)\<rparr>)"

definition get_current_timestamp :: "real action" where
  "get_current_timestamp s =
     Returns (clock s (clock_calls s)) (s\<lparr>clock_calls := Suc (clock_calls s)\<rparr>)"

subsection \<open>storage/repositories.py\<close>

text \<open>
  The statements, with the constraints of the schema that SQLite enforces
  (\<open>PRAGMA foreign_keys = 1\<close> is set on every connection): \<open>traces.trace_id\<close> is the
  primary key, \<open>traces.parent_trace_id\<close>, \<open>llm_calls.trace_id\<close> and \<open>events.trace_id\<close>
  reference \<open>traces(trace_id)\<close>, and \<open>llm_calls.trace_id\<close> is unique. A violated constraint
  raises \<open>sqlite3.IntegrityError\<close> and leaves the table as it was.
\<close>

definition trace_ids :: "database \<Rightarrow> string set" where
  "trace_ids d = set (map tr_trace_id (traces d))"

definition insert_trace :: "trace_row \<Rightarrow> database \<Rightarrow> py_exception + database" where
  "insert_trace row d =
     (if tr_trace_id row \<in> trace_ids d then Inl IntegrityError
      else
        (case tr_parent_trace_id row of
           None \<Rightarrow> Inr (d\<lparr>traces := traces d @ [row]\<rparr>)
         | Some parent \<Rightarrow>
             if parent \<in> trace_ids d \<or> parent = tr_trace_id row
             then Inr (d\<lparr>traces := traces d @ [row]\<rparr>)
             else Inl IntegrityError))"

definition update_trace ::
  "string \<Rightarrow> real \<Rightarrow> real \<Rightarrow> string \<Rightarrow> string option \<Rightarrow> database \<Rightarrow> py_exception + database" where
  "update_trace trace_id end_time duration_ms status error_message d =
     Inr (d\<lparr>traces :=
            map (\<lambda>row. if tr_trace_id row = trace_id
                        then row\<lparr>tr_end_time := Some end_time, tr_duration_ms := Some duration_ms,
                                 tr_status := status, tr_error_message := error_message\<rparr>
                        else row)
                (traces d)\<rparr>)"

definition insert_llm_call :: "llm_call_row \<Rightarrow> database \<Rightarrow> py_exception + database" where
  "insert_llm_call row d =
     (if lc_trace_id row \<in> set (map lc_trace_id (llm_calls d)) then Inl IntegrityError
      else if lc_trace_id row \<notin> trace_ids d then Inl IntegrityError
      else Inr (d\<lparr>llm_calls := llm_calls d @ [row]\<rparr>))"

definition insert_event :: "event_row \<Rightarrow> database \<Rightarrow> py_exception + database" where
  "insert_event row d =
     (if ev_trace_id row \<notin> trace_ids d then Inl IntegrityError
      else Inr (d\<lparr>events := events d @ [row]\<rparr>))"

text \<open>
  \<open>execute_insert\<close> and \<open>execute_update\<close>: one write, which fails with
  \<open>sqlite3.OperationalError\<close> when the fault schedule says so, and otherwise runs the
  statement.
\<close>

definition execute_write :: "(database \<Rightarrow> py_exception + database) \<Rightarrow> unit action" where
  "execute_write statement s =
     (let s1 = s\<lparr>db_writes := Suc (db_writes s)\<rparr>
      in if db_faults s (db_writes s) then Raises OperationalError s1
         else (case statement (store s) of
                 Inl e \<Rightarrow> Raises e s1
               | Inr d \<Rightarrow> Returns () (s1\<lparr>store := d\<rparr>)))"

text \<open>\<open>serialize_to_json(x) if x else None\<close>: an empty dictionary is stored as \<open>NULL\<close>.\<close>

definition json_or_null :: "'a list option \<Rightarrow> 'a list option" where
  "json_or_null x = (case x of None \<Rightarrow> None | Some m \<Rightarrow> if m \<noteq> [] then Some m else None)"

definition create_trace ::
  "string \<Rightarrow> string \<Rightarrow> string \<Rightarrow> real \<Rightarrow> string option \<Rightarrow> string option \<Rightarrow> metadata option
     \<Rightarrow> string action" where
  "create_trace trace_id trace_type name start_time session_id parent_trace_id metadata =
     and_then
       (execute_write (insert_trace
          \<lparr>tr_trace_id = trace_id, tr_parent_trace_id = parent_trace_id,
           tr_session_id = session_id, tr_trace_type = trace_type, tr_name = name,
           tr_start_time = start_time, tr_end_time = None, tr_duration_ms = None,
           tr_status = ''pending'', tr_error_message = None,
           tr_metadata = json_or_null metadata\<rparr>))
       (\<lambda>_. Returns trace_id)"

definition update_trace_completion ::
  "string \<Rightarrow> real \<Rightarrow> real \<Rightarrow> string \<Rightarrow> string option \<Rightarrow> unit action" where
  "update_trace_completion trace_id end_time start_time status error_message =
     (let duration_ms = calculate_duration_ms start_time end_time
      in execute_write (update_trace trace_id end_time duration_ms status error_message))"

text \<open>\<open>llm_calls.model\<close> is \<open>NOT NULL\<close>: a model that is \<open>None\<close> violates the constraint.\<close>

definition create_llm_call ::
  "string \<Rightarrow> string option \<Rightarrow> string \<Rightarrow> string \<Rightarrow> int option \<Rightarrow> int option \<Rightarrow> int option
     \<Rightarrow> real \<Rightarrow> string option \<Rightarrow> string \<Rightarrow> unit action" where
  "create_llm_call trace_id model prompt response input_tokens output_tokens total_tokens
       cost_usd system_prompt provider =
     execute_write
       (case model of
          None \<Rightarrow> (\<lambda>d. Inl IntegrityError)
        | Some m \<Rightarrow>
            insert_llm_call
              \<lparr>lc_trace_id = trace_id, lc_model = m, lc_provider = provider,
               lc_prompt = prompt, lc_system_prompt = system_prompt, lc_response = response,
               lc_input_tokens = input_tokens, lc_output_tokens = output_tokens,
               lc_total_tokens = total_tokens, lc_cost_usd = cost_usd\<rparr>)"

definition create_event ::
  "string \<Rightarrow> string \<Rightarrow> string \<Rightarrow> real \<Rightarrow> (string \<times> string) list option \<Rightarrow> unit action" where
  "create_event trace_id event_type event_name timestamp data =
     execute_write (insert_event
       \<lparr>ev_trace_id = trace_id, ev_event_type = event_type, ev_event_name = event_name,
        ev_timestamp = timestamp, ev_data = json_or_null data\<rparr>)"

subsection \<open>What the host framework passes in\<close>

text \<open>
  Run identifiers are the strings \<open>str(run_id)\<close>; an absent \<open>parent_run_id\<close> is \<open>None\<close>, and
  a present one is always truthy. The descriptor \<open>serialized\<close> is a record of its optional
  keys. In \<open>llm_output\<close> and \<open>token_usage\<close>, which the provider fills, a key is absent,
  present with the value \<open>None\<close>, or present with a value; what \<open>dict.get\<close> returns is an
  option, \<open>None\<close> being Python's \<open>None\<close>. Payloads that the callback only stores (chain
  inputs and outputs, tool input and output, agent logs) are strings. \<open>error\<close> arguments
  are the text \<open>str(error)\<close>.
\<close>

record descriptor =
  d_name :: "string option"
  d_id :: "string list option"

datatype 'a entry = Absent | Null | Value 'a

text \<open>\<open>d.get(key, default)\<close>: the default only for an absent key.\<close>

definition dict_get :: "'a entry \<Rightarrow> 'a option \<Rightarrow> 'a option" where
  "dict_get e dflt = (case e of Absent \<Rightarrow> dflt | Null \<Rightarrow> None | Value v \<Rightarrow> Some v)"

record token_usage =
  tu_prompt_tokens :: "int entry"
  tu_completion_tokens :: "int entry"
  tu_total_tokens :: "int entry"

record llm_output =
  lo_token_usage :: "token_usage entry"
  lo_model_name :: "string entry"
  lo_model :: "string entry"

record llm_result =
  res_generations :: "string list list"
  res_llm_output :: "llm_output option"
  res_prompts :: "string list option"

record agent_action =
  aa_tool :: string
  aa_tool_input :: string
  aa_log :: string

record agent_finish =
  af_return_values :: string
  af_log :: string

subsection \<open>ObservabilityCallback\<close>

definition get_or_create_trace_id :: "string \<Rightarrow> string action" where
  "get_or_create_trace_id run_id =
     and_then
       (\<lambda>s. if run_id_to_trace_id s run_id = None then
               and_then generate_trace_id
                 (\<lambda>new_id. modify (\<lambda>s. s\<lparr>run_id_to_trace_id :=
                                               (run_id_to_trace_id s)(run_id \<mapsto> new_id)\<rparr>)) s
             else Returns () s)
       (\<lambda>_. and_then (gets (\<lambda>s. run_id_to_trace_id s run_id))
               (\<lambda>found. lift_result (case found of None \<Rightarrow> Inl KeyError | Some t \<Rightarrow> Inr t)))"

text \<open>\<open>except Exception as e: print(...)\<close>: an exception that is not an \<open>Exception\<close> passes.\<close>

definition safe_execute :: "unit action \<Rightarrow> unit action" where
  "safe_execute func s =
     (case func s of
        Returns x s' \<Rightarrow> Returns () s'
      | Raises e s' \<Rightarrow>
          if is_Exception e then Returns () (s'\<lparr>printed := printed s' @ [e]\<rparr>)
          else Raises e s')"

text \<open>\<open>self._get_or_create_trace_id(parent_run_id) if parent_run_id else
  self.context.get_current_trace_id()\<close>.\<close>

definition parent_or_current :: "string option \<Rightarrow> string option action" where
  "parent_or_current parent_run_id =
     (case parent_run_id of
        Some p \<Rightarrow> and_then (get_or_create_trace_id p) (\<lambda>t. Returns (Some t))
      | None \<Rightarrow> gets (\<lambda>s. get_current_trace_id (ctx s)))"

text \<open>\<open>serialized.get("name", serialized.get("id", ["unknown"])[-1])\<close>: the default is
  computed before the lookup, so an empty \<open>id\<close> list raises even when a name is there.\<close>

definition name_or_last_id :: "descriptor \<Rightarrow> py_exception + string" where
  "name_or_last_id serialized =
     (case py_index (case d_id serialized of None \<Rightarrow> [''unknown''] | Some ids \<Rightarrow> ids) (- 1) of
        Inl e \<Rightarrow> Inl e
      | Inr fallback \<Rightarrow> Inr (case d_name serialized of None \<Rightarrow> fallback | Some n \<Rightarrow> n))"

text \<open>\<open>dict.update\<close> keeps the place of a key that is there and appends a new one.\<close>

definition dict_update :: "metadata \<Rightarrow> metadata \<Rightarrow> metadata" where
  "dict_update d other = fold (\<lambda>(k, v). AList.update k v) other d"

definition combine_metadata ::
  "metadata \<Rightarrow> metadata option \<Rightarrow> string list option \<Rightarrow> metadata" where
  "combine_metadata global metadata tags =
     (let combined = global;
          combined = (case metadata of
                        None \<Rightarrow> combined
                      | Some m \<Rightarrow> if m \<noteq> [] then dict_update combined m else combined)
      in case tags of
           None \<Rightarrow> combined
         | Some ts \<Rightarrow> if ts \<noteq> [] then AList.update ''tags'' (JList ts) combined else combined)"

text \<open>\<open>del d[k]\<close> raises \<open>KeyError\<close> on a missing key; the guarded form does not.\<close>

definition del_run_id_to_trace_id :: "string \<Rightarrow> unit action" where
  "del_run_id_to_trace_id run_id s =
     (if run_id_to_trace_id s run_id = None then Raises KeyError s
      else Returns () (s\<lparr>run_id_to_trace_id := (run_id_to_trace_id s)(run_id := None)\<rparr>))"

definition del_run_start_times :: "string \<Rightarrow> unit action" where
  "del_run_start_times run_id s =
     (if run_start_times s run_id = None then Raises KeyError s
      else Returns () (s\<lparr>run_start_times := (run_start_times s)(run_id := None)\<rparr>))"

definition guarded_cleanup :: "string \<Rightarrow> unit action" where
  "guarded_cleanup run_id =
     and_then
       (\<lambda>s. if run_id_to_trace_id s run_id \<noteq> None then del_run_id_to_trace_id run_id s
             else Returns () s)
       (\<lambda>_ s. if run_start_times s run_id \<noteq> None then del_run_start_times run_id s
               else Returns () s)"

definition set_run_start_time :: "string \<Rightarrow> real \<Rightarrow> unit action" where
  "set_run_start_time run_id start_time =
     modify (\<lambda>s. s\<lparr>run_start_times := (run_start_times s)(run_id \<mapsto> start_time)\<rparr>)"

text \<open>\<open>self._run_start_times.get(str(run_id), end_time)\<close>.\<close>

definition recorded_start_time :: "string \<Rightarrow> real \<Rightarrow> real action" where
  "recorded_start_time run_id end_time =
     gets (\<lambda>s. case run_start_times s run_id of None \<Rightarrow> end_time | Some t \<Rightarrow> t)"

definition context_push ::
  "string \<Rightarrow> string \<Rightarrow> string \<Rightarrow> real \<Rightarrow> metadata option \<Rightarrow> unit action" where
  "context_push trace_id trace_type name start_time metadata =
     modify (\<lambda>s. s\<lparr>ctx := push_trace trace_id trace_type name start_time metadata (ctx s)\<rparr>)"

definition context_pop :: "frame option action" where
  "context_pop s = Returns (fst (pop_trace (ctx s))) (s\<lparr>ctx := snd (pop_trace (ctx s))\<rparr>)"

text \<open>\<open>data={key: payload} if ENABLE_..._LOGGING else {}\<close>.\<close>

definition logged :: "bool \<Rightarrow> (string \<times> string) list \<Rightarrow> (string \<times> string) list option" where
  "logged enabled data = Some (if enabled then data else [])"

subsubsection \<open>LLM callbacks\<close>

definition on_llm_start_body ::
  "descriptor \<Rightarrow> string list \<Rightarrow> string \<Rightarrow> string option \<Rightarrow> string list option
     \<Rightarrow> metadata option \<Rightarrow> unit action" where
  "on_llm_start_body serialized prompts run_id parent_run_id tags metadata =
     and_then (get_or_create_trace_id run_id) (\<lambda>trace_id.
     and_then get_current_timestamp (\<lambda>start_time.
     and_then (set_run_start_time run_id start_time) (\<lambda>_.
     and_then (parent_or_current parent_run_id) (\<lambda>parent_trace_id.
     and_then (lift_result (name_or_last_id serialized)) (\<lambda>model.
     and_then (gets (\<lambda>s. combine_metadata (global_metadata s) metadata tags))
       (\<lambda>combined_metadata.
     and_then (gets (\<lambda>s. local_session_id (ctx s))) (\<lambda>session_id.
     and_then (create_trace trace_id ''llm'' (''llm_'' @ model) start_time session_id
                 parent_trace_id (Some combined_metadata)) (\<lambda>_.
     context_push trace_id ''llm'' (''llm_'' @ model) start_time
       (Some combined_metadata)))))))))"

definition on_llm_start ::
  "descriptor \<Rightarrow> string list \<Rightarrow> string \<Rightarrow> string option \<Rightarrow> string list option
     \<Rightarrow> metadata option \<Rightarrow> unit action" where
  "on_llm_start serialized prompts run_id parent_run_id tags metadata =
     safe_execute (on_llm_start_body serialized prompts run_id parent_run_id tags metadata)"

text \<open>
  \<open>token_usage.get(key, default)\<close> where \<open>token_usage\<close> itself may be \<open>None\<close>, which has no
  \<open>get\<close>; \<open>input_tokens + output_tokens\<close> and the divisions of \<open>calculate_cost\<close>, which
  raise \<open>TypeError\<close> on \<open>None\<close>. A model that is \<open>None\<close> is not in the pricing table and
  gets the default pair.
\<close>

definition usage_get ::
  "token_usage option \<Rightarrow> (token_usage \<Rightarrow> int entry) \<Rightarrow> int option \<Rightarrow> py_exception + int option" where
  "usage_get token_usage key dflt =
     (case token_usage of
        None \<Rightarrow> Inl AttributeError
      | Some usage \<Rightarrow> Inr (dict_get (key usage) dflt))"

definition py_add :: "int option \<Rightarrow> int option \<Rightarrow> py_exception + int" where
  "py_add a b =
     (case a of
        None \<Rightarrow> Inl TypeError
      | Some x \<Rightarrow> (case b of None \<Rightarrow> Inl TypeError | Some y \<Rightarrow> Inr (x + y)))"

definition calculate_cost_of ::
  "string option \<Rightarrow> int option \<Rightarrow> int option \<Rightarrow> py_exception + real" where
  "calculate_cost_of model input_tokens output_tokens =
     (case input_tokens of
        None \<Rightarrow> Inl TypeError
      | Some i \<Rightarrow>
          (case output_tokens of
             None \<Rightarrow> Inl TypeError
           | Some o' \<Rightarrow>
               (case model of
                  Some m \<Rightarrow> Inr (calculate_cost m i o')
                | None \<Rightarrow>
                    Inr ((real_of_int i / 1000000) * input_price DEFAULT_PRICING +
                         (real_of_int o' / 1000000) * output_price DEFAULT_PRICING))))"

definition on_llm_end_body :: "llm_result \<Rightarrow> string \<Rightarrow> string option \<Rightarrow> unit action" where
  "on_llm_end_body response run_id parent_run_id =
     and_then (get_or_create_trace_id run_id) (\<lambda>trace_id.
     and_then get_current_timestamp (\<lambda>end_time.
     and_then (recorded_start_time run_id end_time) (\<lambda>start_time.
     and_then context_pop (\<lambda>_.
     let llm_output =
           (case res_llm_output response of
              None \<Rightarrow> \<lparr>lo_token_usage = Absent, lo_model_name = Absent, lo_model = Absent\<rparr>
            | Some out \<Rightarrow> out);
         token_usage =
           dict_get (lo_token_usage llm_output)
             (Some \<lparr>tu_prompt_tokens = Absent, tu_completion_tokens = Absent,
                    tu_total_tokens = Absent\<rparr>)
     in
     and_then (lift_result (usage_get token_usage tu_prompt_tokens (Some 0)))
       (\<lambda>input_tokens.
     and_then (lift_result (usage_get token_usage tu_completion_tokens (Some 0)))
       (\<lambda>output_tokens.
     and_then (lift_result (py_add input_tokens output_tokens)) (\<lambda>token_sum.
     and_then (lift_result (usage_get token_usage tu_total_tokens (Some token_sum)))
       (\<lambda>total_tokens.
     let model =
           dict_get (lo_model_name llm_output)
             (dict_get (lo_model llm_output) (Some ''unknown''))
     in
     and_then (lift_result (calculate_cost_of model input_tokens output_tokens))
       (\<lambda>cost_usd.
     let system_prompt = None;
         response_text =
           (case res_generations response of
              [] \<Rightarrow> []
            | g # _ \<Rightarrow> (case g of [] \<Rightarrow> [] | t # _ \<Rightarrow> t));
         prompt =
           (case res_prompts response of
              None \<Rightarrow> []
            | Some ps \<Rightarrow> (case ps of [] \<Rightarrow> [] | first # _ \<Rightarrow> first))
     in
     and_then (gets enable_prompt_logging) (\<lambda>prompt_logging.
     and_then (gets enable_response_logging) (\<lambda>response_logging.
     let prompt = (if prompt_logging then truncate_string prompt MAX_PROMPT_LENGTH
                   else ''[logging disabled]'');
         response_text = (if response_logging
                          then truncate_string response_text MAX_RESPONSE_LENGTH
                          else ''[logging disabled]'')
     in
     and_then (update_trace_completion trace_id end_time start_time ''success'' None) (\<lambda>_.
     and_then (create_llm_call trace_id model prompt response_text input_tokens
                 output_tokens total_tokens cost_usd system_prompt ''groq'') (\<lambda>_.
     and_then (del_run_id_to_trace_id run_id) (\<lambda>_.
     del_run_start_times run_id))))))))))))))"

definition on_llm_end :: "llm_result \<Rightarrow> string \<Rightarrow> string option \<Rightarrow> unit action" where
  "on_llm_end response run_id parent_run_id =
     safe_execute (on_llm_end_body response run_id parent_run_id)"

definition on_llm_error_body :: "string \<Rightarrow> string \<Rightarrow> string option \<Rightarrow> unit action" where
  "on_llm_error_body error run_id parent_run_id =
     and_then (get_or_create_trace_id run_id) (\<lambda>trace_id.
     and_then get_current_timestamp (\<lambda>end_time.
     and_then (recorded_start_time run_id end_time) (\<lambda>start_time.
     and_then context_pop (\<lambda>_.
     and_then (update_trace_completion trace_id end_time start_time ''error'' (Some error))
       (\<lambda>_.
     guarded_cleanup run_id)))))"

definition on_llm_error :: "string \<Rightarrow> string \<Rightarrow> string option \<Rightarrow> unit action" where
  "on_llm_error error run_id parent_run_id =
     safe_execute (on_llm_error_body error run_id parent_run_id)"

subsubsection \<open>Chain callbacks\<close>

definition on_chain_start_body ::
  "descriptor \<Rightarrow> string \<Rightarrow> string \<Rightarrow> string option \<Rightarrow> string list option
     \<Rightarrow> metadata option \<Rightarrow> unit action" where
  "on_chain_start_body serialized inputs run_id parent_run_id tags metadata =
     and_then (get_or_create_trace_id run_id) (\<lambda>trace_id.
     and_then get_current_timestamp (\<lambda>start_time.
     and_then (set_run_start_time run_id start_time) (\<lambda>_.
     and_then (parent_or_current parent_run_id) (\<lambda>parent_trace_id.
     and_then (lift_result (name_or_last_id serialized)) (\<lambda>chain_name.
     and_then (gets (\<lambda>s. combine_metadata (global_metadata s) metadata tags))
       (\<lambda>combined_metadata.
     and_then (gets (\<lambda>s. local_session_id (ctx s))) (\<lambda>session_id.
     and_then (create_trace trace_id ''chain'' (''chain_'' @ chain_name) start_time session_id
                 parent_trace_id (Some combined_metadata)) (\<lambda>_.
     and_then (context_push trace_id ''chain'' (''chain_'' @ chain_name) start_time
                 (Some combined_metadata)) (\<lambda>_.
     and_then (gets enable_prompt_logging) (\<lambda>prompt_logging.
     create_event trace_id ''chain_start'' chain_name start_time
       (logged prompt_logging [(''inputs'', inputs)])))))))))))"

definition on_chain_start ::
  "descriptor \<Rightarrow> string \<Rightarrow> string \<Rightarrow> string option \<Rightarrow> string list option
     \<Rightarrow> metadata option \<Rightarrow> unit action" where
  "on_chain_start serialized inputs run_id parent_run_id tags metadata =
     safe_execute (on_chain_start_body serialized inputs run_id parent_run_id tags metadata)"

definition on_chain_end_body :: "string \<Rightarrow> string \<Rightarrow> string option \<Rightarrow> unit action" where
  "on_chain_end_body outputs run_id parent_run_id =
     and_then (get_or_create_trace_id run_id) (\<lambda>trace_id.
     and_then get_current_timestamp (\<lambda>end_time.
     and_then (recorded_start_time run_id end_time) (\<lambda>start_time.
     and_then context_pop (\<lambda>_.
     and_then (update_trace_completion trace_id end_time start_time ''success'' None) (\<lambda>_.
     and_then (gets enable_response_logging) (\<lambda>response_logging.
     and_then (create_event trace_id ''chain_end'' ''chain_completed'' end_time
                 (logged response_logging [(''outputs'', outputs)])) (\<lambda>_.
     guarded_cleanup run_id)))))))"

definition on_chain_end :: "string \<Rightarrow> string \<Rightarrow> string option \<Rightarrow> unit action" where
  "on_chain_end outputs run_id parent_run_id =
     safe_execute (on_chain_end_body outputs run_id parent_run_id)"

definition on_chain_error_body :: "string \<Rightarrow> string \<Rightarrow> string option \<Rightarrow> unit action" where
  "on_chain_error_body error run_id parent_run_id =
     and_then (get_or_create_trace_id run_id) (\<lambda>trace_id.
     and_then get_current_timestamp (\<lambda>end_time.
     and_then (recorded_start_time run_id end_time) (\<lambda>start_time.
     and_then context_pop (\<lambda>_.
     and_then (update_trace_completion trace_id end_time start_time ''error'' (Some error))
       (\<lambda>_.
     guarded_cleanup run_id)))))"

definition on_chain_error :: "string \<Rightarrow> string \<Rightarrow> string option \<Rightarrow> unit action" where
  "on_chain_error error run_id parent_run_id =
     safe_execute (on_chain_error_body error run_id parent_run_id)"

subsubsection \<open>Tool callbacks\<close>

definition on_tool_start_body ::
  "descriptor \<Rightarrow> string \<Rightarrow> string \<Rightarrow> string option \<Rightarrow> string list option
     \<Rightarrow> metadata option \<Rightarrow> unit action" where
  "on_tool_start_body serialized input_str run_id parent_run_id tags metadata =
     and_then (get_or_create_trace_id run_id) (\<lambda>trace_id.
     and_then get_current_timestamp (\<lambda>start_time.
     and_then (set_run_start_time run_id start_time) (\<lambda>_.
     and_then (parent_or_current parent_run_id) (\<lambda>parent_trace_id.
     let tool_name = (case d_name serialized of None \<Rightarrow> ''unknown_tool'' | Some n \<Rightarrow> n)
     in
     and_then (gets (\<lambda>s. combine_metadata (global_metadata s) metadata tags))
       (\<lambda>combined_metadata.
     and_then (gets (\<lambda>s. local_session_id (ctx s))) (\<lambda>session_id.
     and_then (create_trace trace_id ''tool'' (''tool_'' @ tool_name) start_time session_id
                 parent_trace_id (Some combined_metadata)) (\<lambda>_.
     and_then (gets enable_prompt_logging) (\<lambda>prompt_logging.
     create_event trace_id ''tool_start'' tool_name start_time
       (logged prompt_logging [(''input'', input_str)])))))))))"

definition on_tool_start ::
  "descriptor \<Rightarrow> string \<Rightarrow> string \<Rightarrow> string option \<Rightarrow> string list option
     \<Rightarrow> metadata option \<Rightarrow> unit action" where
  "on_tool_start serialized input_str run_id parent_run_id tags metadata =
     safe_execute (on_tool_start_body serialized input_str run_id parent_run_id tags metadata)"

definition on_tool_end_body :: "string \<Rightarrow> string \<Rightarrow> string option \<Rightarrow> unit action" where
  "on_tool_end_body tool_output run_id parent_run_id =
     and_then (get_or_create_trace_id run_id) (\<lambda>trace_id.
     and_then get_current_timestamp (\<lambda>end_time.
     and_then (recorded_start_time run_id end_time) (\<lambda>start_time.
     and_then (update_trace_completion trace_id end_time start_time ''success'' None) (\<lambda>_.
     and_then (gets enable_response_logging) (\<lambda>response_logging.
     and_then (create_event trace_id ''tool_end'' ''tool_completed'' end_time
                 (logged response_logging [(''output'', tool_output)])) (\<lambda>_.
     guarded_cleanup run_id))))))"

definition on_tool_end :: "string \<Rightarrow> string \<Rightarrow> string option \<Rightarrow> unit action" where
  "on_tool_end tool_output run_id parent_run_id =
     safe_execute (on_tool_end_body tool_output run_id parent_run_id)"

definition on_tool_error_body :: "string \<Rightarrow> string \<Rightarrow> string option \<Rightarrow> unit action" where
  "on_tool_error_body error run_id parent_run_id =
     and_then (get_or_create_trace_id run_id) (\<lambda>trace_id.
     and_then get_current_timestamp (\<lambda>end_time.
     and_then (recorded_start_time run_id end_time) (\<lambda>start_time.
     and_then (update_trace_completion trace_id end_time start_time ''error'' (Some error))
       (\<lambda>_.
     guarded_cleanup run_id))))"

definition on_tool_error :: "string \<Rightarrow> string \<Rightarrow> string option \<Rightarrow> unit action" where
  "on_tool_error error run_id parent_run_id =
     safe_execute (on_tool_error_body error run_id parent_run_id)"

subsubsection \<open>Agent callbacks\<close>

text \<open>\<open>if current_trace_id:\<close> holds for a trace id that is neither \<open>None\<close> nor empty.\<close>

definition on_agent_action_body :: "agent_action \<Rightarrow> string \<Rightarrow> string option \<Rightarrow> unit action" where
  "on_agent_action_body action run_id parent_run_id =
     and_then (parent_or_current parent_run_id) (\<lambda>current_trace_id.
     case current_trace_id of
       None \<Rightarrow> Returns ()
     | Some current \<Rightarrow>
         if current \<noteq> [] then
           and_then get_current_timestamp (\<lambda>timestamp.
           and_then (gets enable_prompt_logging) (\<lambda>prompt_logging.
           create_event current ''agent_action'' (aa_tool action) timestamp
             (logged prompt_logging
                [(''tool'', aa_tool action), (''tool_input'', aa_tool_input action),
                 (''log'', aa_log action)])))
         else Returns ())"

definition on_agent_action :: "agent_action \<Rightarrow> string \<Rightarrow> string option \<Rightarrow> unit action" where
  "on_agent_action action run_id parent_run_id =
     safe_execute (on_agent_action_body action run_id parent_run_id)"

definition on_agent_finish_body :: "agent_finish \<Rightarrow> string \<Rightarrow> string option \<Rightarrow> unit action" where
  "on_agent_finish_body finish run_id parent_run_id =
     and_then (parent_or_current parent_run_id) (\<lambda>current_trace_id.
     case current_trace_id of
       None \<Rightarrow> Returns ()
     | Some current \<Rightarrow>
         if current \<noteq> [] then
           and_then get_current_timestamp (\<lambda>timestamp.
           and_then (gets enable_response_logging) (\<lambda>response_logging.
           create_event current ''agent_finish'' ''agent_completed'' timestamp
             (logged response_logging
                [(''return_values'', af_return_values finish), (''log'', af_log finish)])))
         else Returns ())"

definition on_agent_finish :: "agent_finish \<Rightarrow> string \<Rightarrow> string option \<Rightarrow> unit action" where
  "on_agent_finish finish run_id parent_run_id =
     safe_execute (on_agent_finish_body finish run_id parent_run_id)"

section \<open>Reference formulas and example data\<close>

text \<open>
  The formulas of the specification, written independently of the code, and the concrete
  inputs used below.
\<close>

definition spec_percentile :: "real list \<Rightarrow> real \<Rightarrow> real" where
  "spec_percentile d p =
     (let k = p * (real (length d) - 1); f = nat \<lfloor>k\<rfloor>; c = f + 1
      in if c < length d then d ! f + (d ! c - d ! f) * (k - real f) else d ! f)"

definition bucket_rate :: "bucket_row \<Rightarrow> real" where
  "bucket_rate b =
     (if b_total_count b = 0 then 0
      else real (b_error_count b) / real (b_total_count b) * 100)"

definition population_mean :: "real list \<Rightarrow> real" where
  "population_mean xs = sum_list xs / real (length xs)"

definition population_stddev :: "real list \<Rightarrow> real" where
  "population_stddev xs =
     sqrt (sum_list (map (\<lambda>x. (x - population_mean xs) ^ 2) xs) / real (length xs))"

definition anomaly_threshold :: "bucket_row list \<Rightarrow> real \<Rightarrow> real" where
  "anomaly_threshold bs m =
     population_mean (map bucket_rate bs) + m * population_stddev (map bucket_rate bs)"

definition selected_traces ::
  "database \<Rightarrow> real \<Rightarrow> real option \<Rightarrow> real option \<Rightarrow> int option \<Rightarrow> string option
     \<Rightarrow> trace_row list" where
  "selected_traces db now start_time end_time hours trace_type =
     filter (\<lambda>t. in_time_range (time_range now start_time end_time hours) t \<and>
                 has_trace_type trace_type t) (traces db)"

definition hourly_bucket :: "string \<Rightarrow> nat \<Rightarrow> nat \<Rightarrow> bucket_row" where
  "hourly_bucket key requests errors =
     \<lparr>b_time_bucket = key, b_total_count = requests, b_error_count = errors\<rparr>"

text \<open>Five hourly buckets of 100 requests each, with error rates 1, 1, 1, 1 and 50 percent.\<close>

definition example_buckets :: "bucket_row list" where
  "example_buckets =
     [hourly_bucket ''2026-01-13-10'' 100 1, hourly_bucket ''2026-01-13-11'' 100 1,
      hourly_bucket ''2026-01-13-12'' 100 1, hourly_bucket ''2026-01-13-13'' 100 1,
      hourly_bucket ''2026-01-13-14'' 100 50]"

definition finished_trace :: "string \<Rightarrow> string \<Rightarrow> real \<Rightarrow> real \<Rightarrow> string \<Rightarrow> trace_row" where
  "finished_trace tid ttype started ms st =
     \<lparr>tr_trace_id = tid, tr_parent_trace_id = None, tr_session_id = None,
      tr_trace_type = ttype, tr_name = ttype, tr_start_time = started,
      tr_end_time = Some (started + ms / 1000), tr_duration_ms = Some ms,
      tr_status = st, tr_error_message = None, tr_metadata = None\<rparr>"

text \<open>Two finished traces, of 10 ms and 20 ms.\<close>

definition two_traces :: database where
  "two_traces =
     \<lparr>traces = [finished_trace ''t1'' ''llm'' 100 10 ''success'',
                finished_trace ''t2'' ''llm'' 200 20 ''error''],
      llm_calls = [], events = []\<rparr>"

definition empty_database :: database where
  "empty_database = \<lparr>traces = [], llm_calls = [], events = []\<rparr>"

definition example_frame :: "string \<Rightarrow> string option \<Rightarrow> frame" where
  "example_frame tid parent =
     \<lparr>fr_trace_id = tid, fr_trace_type = ''chain'', fr_name = ''chain_demo'',
      fr_start_time = 1, fr_parent_trace_id = parent, fr_metadata = []\<rparr>"

text \<open>What an outcome leaves behind, and whether it is a normal return.\<close>

definition state_of :: "'a outcome \<Rightarrow> callback_state" where
  "state_of r = (case r of Returns x s \<Rightarrow> s | Raises e s \<Rightarrow> s)"

definition returns_normally :: "'a outcome \<Rightarrow> bool" where
  "returns_normally r = (case r of Returns x s \<Rightarrow> True | Raises e s \<Rightarrow> False)"

definition raises_only_Exception :: "'a action \<Rightarrow> bool" where
  "raises_only_Exception m = (\<forall>s e s'. m s = Raises e s' \<longrightarrow> is_Exception e)"

text \<open>The trace id that a run id resolves to in a state: the stored one, or the next one
  that the generator yields.\<close>

definition resolved_trace_id :: "callback_state \<Rightarrow> string \<Rightarrow> string" where
  "resolved_trace_id s run_id =
     (case run_id_to_trace_id s run_id of Some t \<Rightarrow> t | None \<Rightarrow> uuids s (uuid_calls s))"

text \<open>The row and the frame that a start without \<open>parent_run_id\<close> is expected to produce
  in state \<open>s\<close>: the parent is the top of the stack of \<open>s\<close>.\<close>

definition pending_trace ::
  "callback_state \<Rightarrow> string \<Rightarrow> string \<Rightarrow> string \<Rightarrow> string list option \<Rightarrow> metadata option
     \<Rightarrow> trace_row" where
  "pending_trace s run_id trace_type name tags metadata =
     \<lparr>tr_trace_id = resolved_trace_id s run_id,
      tr_parent_trace_id = get_current_trace_id (ctx s),
      tr_session_id = local_session_id (ctx s), tr_trace_type = trace_type, tr_name = name,
      tr_start_time = clock s (clock_calls s), tr_end_time = None, tr_duration_ms = None,
      tr_status = ''pending'', tr_error_message = None,
      tr_metadata = json_or_null (Some (combine_metadata (global_metadata s) metadata tags))\<rparr>"

definition pushed_frame ::
  "callback_state \<Rightarrow> string \<Rightarrow> string \<Rightarrow> string \<Rightarrow> string list option \<Rightarrow> metadata option
     \<Rightarrow> frame" where
  "pushed_frame s run_id trace_type name tags metadata =
     \<lparr>fr_trace_id = resolved_trace_id s run_id, fr_trace_type = trace_type, fr_name = name,
      fr_start_time = clock s (clock_calls s),
      fr_parent_trace_id = get_current_trace_id (ctx s),
      fr_metadata = combine_metadata (global_metadata s) metadata tags\<rparr>"

text \<open>The store accepts the trace of a start without \<open>parent_run_id\<close>: the next write is
  not scheduled to fail, the trace id is not in the table, and the top of the stack, if
  there is one, is.\<close>

definition write_accepted :: "callback_state \<Rightarrow> string \<Rightarrow> bool" where
  "write_accepted s run_id =
     (\<not> db_faults s (db_writes s) \<and>
      resolved_trace_id s run_id \<notin> trace_ids (store s) \<and>
      (case get_current_trace_id (ctx s) of
         None \<Rightarrow> True
       | Some parent \<Rightarrow> parent \<in> trace_ids (store s)))"

text \<open>Every frame on the stack belongs to a trace that is in the table.\<close>

definition stack_recorded :: "callback_state \<Rightarrow> bool" where
  "stack_recorded s = (set (map fr_trace_id (local_stack (ctx s))) \<subseteq> trace_ids (store s))"

definition keeps_stack_recorded :: "'a action \<Rightarrow> bool" where
  "keeps_stack_recorded m = (\<forall>s. stack_recorded s \<longrightarrow> stack_recorded (state_of (m s)))"

text \<open>A callback as constructed in \<open>test.py\<close>, with a generator that yields \<open>trace-x\<close>,
  \<open>trace-xx\<close> and so on, a clock that starts at 1000, and a given fault schedule.\<close>

definition example_uuids :: "nat \<Rightarrow> string" where
  "example_uuids n = ''trace-'' @ replicate (Suc n) (CHR ''x'')"

definition initial_state :: "(nat \<Rightarrow> bool) \<Rightarrow> callback_state" where
  "initial_state faults =
     \<lparr>run_id_to_trace_id = Map.empty, run_start_times = Map.empty,
      ctx = \<lparr>local_stack = [], local_session_id = Some ''my_session_123''\<rparr>,
      store = empty_database,
      global_metadata = [(''user_id'', JStr ''user_456'')],
      enable_prompt_logging = True, enable_response_logging = True,
      uuids = example_uuids, uuid_calls = 0,
      clock = (\<lambda>n. 1000 + real n), clock_calls = 0,
      db_faults = faults, db_writes = 0, printed = []\<rparr>"

definition chat_model :: descriptor where
  "chat_model = \<lparr>d_name = Some ''ChatGroq'', d_id = Some [''langchain'', ''ChatGroq'']\<rparr>"

definition demo_chain :: descriptor where
  "demo_chain = \<lparr>d_name = None, d_id = Some [''langchain'', ''RunnableSequence'']\<rparr>"

text \<open>The callback after the start of a chain \<open>run-a\<close> on a store without faults.\<close>

definition after_chain_start :: callback_state where
  "after_chain_start =
     state_of (on_chain_start demo_chain ''question'' ''run-a'' None None None
                 (initial_state (\<lambda>n. False)))"

text \<open>The result that the framework passes to the end of a model call, and an agent
  step.\<close>

definition example_response :: llm_result where
  "example_response =
     \<lparr>res_generations = [[''Observability is insight.'']],
      res_llm_output =
        Some \<lparr>lo_token_usage =
                 Value \<lparr>tu_prompt_tokens = Value 1000000, tu_completion_tokens = Value 0,
                        tu_total_tokens = Absent\<rparr>,
               lo_model_name = Value ''llama3-70b-8192'', lo_model = Absent\<rparr>,
      res_prompts = None\<rparr>"

definition example_action :: agent_action where
  "example_action =
     \<lparr>aa_tool = ''search'', aa_tool_input = ''observability'', aa_log = ''Action: search''\<rparr>"

text \<open>
  Inside the open chain \<open>run-a\<close>, a model call \<open>run-b\<close> starts and ends; from the start of
  the model call on, the store follows the given fault schedule. The chain's start made
  the writes 0 and 1, so the model call's trace is write 2.
\<close>

definition after_llm_call :: "(nat \<Rightarrow> bool) \<Rightarrow> callback_state" where
  "after_llm_call faults =
     state_of (on_llm_end example_response ''run-b'' None
       (state_of (on_llm_start chat_model [''hi''] ''run-b'' None None None
          (after_chain_start\<lparr>db_faults := faults\<rparr>))))"

text \<open>Four hourly buckets of 100 requests each, with error rates 0, 0, 50 and 50 percent.\<close>

definition two_level_buckets :: "bucket_row list" where
  "two_level_buckets =
     [hourly_bucket ''2026-01-13-10'' 100 0, hourly_bucket ''2026-01-13-11'' 100 0,
      hourly_bucket ''2026-01-13-12'' 100 50, hourly_bucket ''2026-01-13-13'' 100 50]"

section \<open>Properties\<close>

subsection \<open>Helper lemmas\<close>

lemma py_index_nat: "i < length xs \<Longrightarrow> py_index xs (int i) = Inr (xs ! i)"
  by (simp add: py_index_def)

lemma percentile_unfold:
  assumes "data \<noteq> []" and pi: "py_int ((real (length data) - 1) * p) = int f"
    and f: "f < length data"
  shows "percentile data p =
      (if f + 1 < length data
       then Inr (data ! f + (data ! (f + 1) - data ! f) * ((real (length data) - 1) * p - real f))
       else Inr (data ! f))"
proof -
  define k where "k = (real (length data) - 1) * p"
  have pk: "py_int k = int f" using pi by (simp add: k_def)
  have i0: "py_index data (int f) = Inr (data ! f)"
    using f by (rule py_index_nat)
  have unf: "percentile data p =
     (if int f + 1 \<ge> int (length data) then py_index data (int f)
      else (case py_index data (int f) of Inl e \<Rightarrow> Inl e
            | Inr d0 \<Rightarrow> (case py_index data (int f + 1) of Inl e \<Rightarrow> Inl e
               | Inr d1 \<Rightarrow> Inr (d0 + (d1 - d0) * (k - real_of_int (int f))))))"
    using assms(1) unfolding percentile_def Let_def k_def[symmetric] pk by simp
  show ?thesis
  proof (cases "f + 1 < length data")
    case True
    then have i1: "py_index data (int f + 1) = Inr (data ! (f + 1))"
      using py_index_nat[of "f + 1" data] by (simp add: add.commute)
    from True have "\<not> int f + 1 \<ge> int (length data)" by linarith
    then show ?thesis using True unfolding unf i0 i1 k_def by simp
  next
    case False
    then have "int f + 1 \<ge> int (length data)" by linarith
    then show ?thesis using False unfolding unf i0 by simp
  qed
qed

lemma percentile_spec:
  assumes "data \<noteq> []" "0 \<le> p" "p \<le> 1"
  shows "percentile data p = Inr (spec_percentile data p)"
proof -
  let ?n = "length data"
  let ?k = "p * (real ?n - 1)"
  let ?f = "nat \<lfloor>?k\<rfloor>"
  have n1: "0 \<le> real ?n - 1" using assms(1) by (cases data) simp_all
  have k0: "0 \<le> ?k" using assms(2) n1 by (rule mult_nonneg_nonneg)
  have k1: "?k \<le> real ?n - 1" using n1 assms(2,3)
    by (simp add: mult_left_le_one_le)
  have f0: "0 \<le> \<lfloor>?k\<rfloor>" using k0 by simp
  have "\<lfloor>?k\<rfloor> \<le> \<lfloor>real ?n - 1\<rfloor>" using k1 by (rule floor_mono)
  also have "\<dots> = int ?n - 1" by linarith
  finally have f1: "?f < ?n" using f0 by linarith
  have pi: "py_int ((real ?n - 1) * p) = int ?f"
    using k0 f0 by (simp add: py_int_def mult.commute)
  show ?thesis
    unfolding percentile_unfold[OF assms(1) pi f1] spec_percentile_def Let_def
    by (simp only: mult.commute[of p] if_distrib[of Inr])
qed

lemma get_percentiles_spec:
  assumes "duration_query db (time_range now st en hrs) tt m = ds" "ds \<noteq> []"
  shows "get_percentiles db now st en hrs tt m =
           Inr \<lparr>p50 = spec_percentile ds 0.50, p95 = spec_percentile ds 0.95,
                p99 = spec_percentile ds 0.99\<rparr>"
proof -
  have a: "percentile ds 0.50 = Inr (spec_percentile ds 0.50)"
    using assms(2) by (intro percentile_spec) simp_all
  have b: "percentile ds 0.95 = Inr (spec_percentile ds 0.95)"
    using assms(2) by (intro percentile_spec) simp_all
  have c: "percentile ds 0.99 = Inr (spec_percentile ds 0.99)"
    using assms(2) by (intro percentile_spec) simp_all
  show ?thesis
    unfolding get_percentiles_def Let_def assms(1) a b c using assms(2) by simp
qed

lemma sorted_duration_query: "sorted (duration_query db r tt m)"
  by (simp add: duration_query_def)

lemma duration_query_two_traces:
  "duration_query two_traces (time_range 0 None None None) None None = [10, 20]"
  by (simp add: duration_query_def two_traces_def finished_trace_def time_range_def
        in_time_range_def has_trace_type_def)

lemma duration_query_empty_database:
  "duration_query empty_database (time_range 0 None None None) None None = []"
  by (simp add: duration_query_def empty_database_def)

lemma sqrt_example: "sqrt (9604 / 25) = 98 / 5"
  by (rule real_sqrt_unique) (simp_all add: power2_eq_square)

lemma error_rate_bucket_rate:
  "map b_error_rate (get_error_rate_over_time results) = map bucket_rate results"
  by (simp add: get_error_rate_over_time_def bucket_rate_def safe_divide_def)

lemma example_rates: "map bucket_rate example_buckets = [1, 1, 1, 1, 50]"
  by (simp add: example_buckets_def hourly_bucket_def bucket_rate_def)

lemma example_mean: "population_mean [1, 1, 1, 1, 50] = 54 / 5"
  by (simp add: population_mean_def)

lemma example_stddev: "population_stddev [1, 1, 1, 1, 50] = 98 / 5"
  by (simp add: population_stddev_def example_mean power2_eq_square sqrt_example)

lemma example_threshold: "anomaly_threshold example_buckets m = 54 / 5 + m * (98 / 5)"
  by (simp add: anomaly_threshold_def example_rates example_mean example_stddev)

lemma detect_anomalies_spec:
  "detect_anomalies results m =
     (if length results < 3 then []
      else map (\<lambda>b. \<lparr>a_time_bucket = b_time_bucket b, a_error_rate = bucket_rate b,
                      a_threshold = anomaly_threshold results m,
                      a_deviation = bucket_rate b - population_mean (map bucket_rate results)\<rparr>)
             (filter (\<lambda>b. bucket_rate b > anomaly_threshold results m) results))"
proof -
  have g: "get_error_rate_over_time results =
      map (\<lambda>b. \<lparr>b_time_bucket = b_time_bucket b, b_total_count = b_total_count b,
             b_error_count = b_error_count b, b_error_rate = bucket_rate b\<rparr>) results"
    by (simp add: get_error_rate_over_time_def bucket_rate_def safe_divide_def)
  have l: "length (get_error_rate_over_time results) = length results"
    by (simp add: g)
  show ?thesis
    unfolding detect_anomalies_def Let_def error_rate_bucket_rate l
      anomaly_threshold_def population_mean_def population_stddev_def
    unfolding g
    by (simp add: filter_map comp_def)
qed

lemma flagged_example:
  "map a_time_bucket (detect_anomalies example_buckets m) =
     map b_time_bucket (filter (\<lambda>b. bucket_rate b > 54 / 5 + m * (98 / 5)) example_buckets)"
  unfolding detect_anomalies_spec example_threshold
  by (simp add: example_buckets_def comp_def)

lemma two_level_rates: "map bucket_rate two_level_buckets = [0, 0, 50, 50]"
  by (simp add: two_level_buckets_def hourly_bucket_def bucket_rate_def)

lemma two_level_threshold: "anomaly_threshold two_level_buckets m = 25 + m * 25"
proof -
  have s: "sqrt 625 = 25"
    by (rule real_sqrt_unique) (simp_all add: power2_eq_square)
  have mean: "population_mean [0, 0, 50, 50] = 25"
    by (simp add: population_mean_def)
  have "population_stddev [0, 0, 50, 50] = 25"
    by (simp add: population_stddev_def mean s)
  then show ?thesis
    by (simp add: anomaly_threshold_def two_level_rates mean)
qed

lemma sum_flags: "sum_list (map (\<lambda>t. if P t then 1 else 0) rows) = length (filter P rows)"
  by (induction rows) simp_all

lemma filtered_durations_two_traces: "filtered_durations two_traces (time_range 0 None None None) = [10, 20]"
  by (simp add: filtered_durations_def two_traces_def finished_trace_def time_range_def in_time_range_def)

lemma truncate_string_example: "truncate_string ''abcdef'' 4 = ''a...''"
  by (simp add: truncate_string_def py_slice_to_def)

lemma truncate_string_bounded: "3 \<le> m \<Longrightarrow> int (length (truncate_string t m)) \<le> m"
  by (auto simp add: truncate_string_def py_slice_to_def)

lemma truncate_string_ellipsis:
  "m < int (length t) \<Longrightarrow> \<exists>p. truncate_string t m = p @ ''...''"
  by (auto simp add: truncate_string_def py_slice_to_def)

lemma truncate_string_unchanged: "int (length t) \<le> m \<Longrightarrow> truncate_string t m = t"
  by (auto simp add: truncate_string_def py_slice_to_def)

lemma histogram_bins_end_at_max:
  assumes "histogram ds min_lat max_lat num_buckets = Inr bins" and "min_lat \<le> max_lat"
    and "b \<in> set bins"
  shows "h_bucket_max b \<le> max_lat"
proof -
  from assms(1) have n0: "num_buckets \<noteq> 0"
    by (auto simp add: histogram_def split: if_splits)
  define w where "w = (max_lat - min_lat) / real_of_int num_buckets"
  from assms(1,3) n0 obtain i where i: "i < nat num_buckets"
      and b: "h_bucket_max b = min_lat + real i * w + w"
    by (auto simp add: histogram_def Let_def w_def)
  from i have n: "0 < num_buckets" by simp
  then have w0: "0 \<le> w" using assms(2) by (simp add: w_def)
  have "real i + 1 \<le> real_of_int num_buckets" using i n by linarith
  then have "(real i + 1) * w \<le> real_of_int num_buckets * w"
    using w0 by (rule mult_right_mono)
  also have "real_of_int num_buckets * w = max_lat - min_lat"
    using n by (simp add: w_def)
  finally show ?thesis by (simp add: b algebra_simps)
qed

lemma histogram_never_counts_max:
  assumes "histogram ds min_lat max_lat num_buckets = Inr bins" and "min_lat \<le> max_lat"
    and "b \<in> set bins"
  shows "\<not> (max_lat \<ge> h_bucket_min b \<and> max_lat < h_bucket_max b)"
  using histogram_bins_end_at_max[OF assms] by simp

subsection \<open>Percentiles\<close>

text \<open>
  Claim C3, as amended. For a non-empty duration list and a rank \<open>p\<close> between 0 and 1,
  \<open>percentile\<close> returns the linear interpolation of the specification at position
  \<open>k = p * (n - 1)\<close>, which is \<open>d[f]\<close> itself when \<open>f + 1\<close> is out of range. On
  \<open>[10, 20, 30, 40]\<close> and rank 0.5 the position is 1.5 and the result is 25, halfway
  between 20 and 30. On the empty list the result is 0, and \<open>get_percentiles\<close> over no
  durations returns 0 for p50, p95 and p99; over some durations it interpolates the
  ascending-sorted list at 0.50, 0.95 and 0.99.
\<close>

theorem percentile_interpolates:
  "(data \<noteq> [] \<and> 0 \<le> p \<and> p \<le> 1 \<longrightarrow> percentile data p = Inr (spec_percentile data p)) \<and>
   percentile [10, 20, 30, 40] 0.5 = Inr 25 \<and>
   percentile [] p = Inr 0 \<and>
   (duration_query db (time_range now st en hrs) tt m = [] \<longrightarrow>
      get_percentiles db now st en hrs tt m = Inr \<lparr>p50 = 0, p95 = 0, p99 = 0\<rparr>) \<and>
   (duration_query db (time_range now st en hrs) tt m \<noteq> [] \<longrightarrow>
      get_percentiles db now st en hrs tt m =
        Inr \<lparr>p50 = spec_percentile (duration_query db (time_range now st en hrs) tt m) 0.50,
             p95 = spec_percentile (duration_query db (time_range now st en hrs) tt m) 0.95,
             p99 = spec_percentile (duration_query db (time_range now st en hrs) tt m) 0.99\<rparr>) \<and>
   sorted (duration_query db (time_range now st en hrs) tt m)"
proof (intro conjI impI)
  show "percentile [10, 20, 30, 40] 0.5 = Inr 25"
    by (simp add: percentile_def py_int_def py_index_def Let_def)
  show "percentile [] p = Inr 0" by (simp add: percentile_def)
  show "sorted (duration_query db (time_range now st en hrs) tt m)"
    by (rule sorted_duration_query)
next
  assume "data \<noteq> [] \<and> 0 \<le> p \<and> p \<le> 1"
  then show "percentile data p = Inr (spec_percentile data p)"
    by (simp add: percentile_spec)
next
  assume "duration_query db (time_range now st en hrs) tt m = []"
  then show "get_percentiles db now st en hrs tt m = Inr \<lparr>p50 = 0, p95 = 0, p99 = 0\<rparr>"
    by (simp add: get_percentiles_def)
next
  assume "duration_query db (time_range now st en hrs) tt m \<noteq> []"
  then show "get_percentiles db now st en hrs tt m =
        Inr \<lparr>p50 = spec_percentile (duration_query db (time_range now st en hrs) tt m) 0.50,
             p95 = spec_percentile (duration_query db (time_range now st en hrs) tt m) 0.95,
             p99 = spec_percentile (duration_query db (time_range now st en hrs) tt m) 0.99\<rparr>"
    by (intro get_percentiles_spec) simp_all
qed

text \<open>The theorem at rank 0.75 of \<open>[10, 20, 30, 40]\<close>, at the empty table and at the table
  with durations 10 and 20.\<close>

theorem percentile_interpolates_witness:
  "percentile [10, 20, 30, 40] (3 / 4) = Inr (325 / 10) \<and>
   get_percentiles empty_database 0 None None None None None =
     Inr \<lparr>p50 = 0, p95 = 0, p99 = 0\<rparr> \<and>
   get_percentiles two_traces 0 None None None None None =
     Inr \<lparr>p50 = 15, p95 = 19.5, p99 = 19.9\<rparr>"
  using percentile_interpolates
          [of "[10, 20, 30, 40]" "3 / 4" empty_database 0 None None None None None]
    percentile_interpolates
          [of "[10, 20, 30, 40]" "3 / 4" two_traces 0 None None None None None]
  by (simp add: duration_query_two_traces duration_query_empty_database
        spec_percentile_def Let_def)

text \<open>The value that claim C3 gives for \<open>percentile([10, 20, 30, 40], 0.5)\<close> is not the one
  the code returns.\<close>

theorem percentile_example_counterexample:
  "percentile [10, 20, 30, 40] 0.5 \<noteq> Inr 20"
  by (simp add: percentile_def py_int_def py_index_def Let_def)

subsection \<open>Anomaly detection\<close>

text \<open>
  Claim C4, as amended. \<open>detect_anomalies\<close> returns the empty list when there are fewer than
  3 hourly buckets. Otherwise it flags exactly the buckets whose error rate exceeds
  \<open>mean + multiplier * stddev\<close>, the population mean and population standard deviation of
  the bucket rates, and reports each with its rate, the threshold and its deviation from
  the mean. With the rates 1, 1, 1, 1, 50 and multiplier 2 the threshold is exactly 50: the
  final bucket does not exceed it and nothing is flagged.
\<close>

theorem detect_anomalies_flags_above_threshold:
  "(length results < 3 \<longrightarrow> detect_anomalies results m = []) \<and>
   (3 \<le> length results \<longrightarrow>
      detect_anomalies results m =
        map (\<lambda>b. \<lparr>a_time_bucket = b_time_bucket b, a_error_rate = bucket_rate b,
                   a_threshold = anomaly_threshold results m,
                   a_deviation = bucket_rate b - population_mean (map bucket_rate results)\<rparr>)
            (filter (\<lambda>b. bucket_rate b > anomaly_threshold results m) results)) \<and>
   anomaly_threshold example_buckets 2 = 50 \<and>
   detect_anomalies example_buckets 2 = []"
proof (intro conjI impI)
  show "anomaly_threshold example_buckets 2 = 50" by (simp add: example_threshold)
  have "map a_time_bucket (detect_anomalies example_buckets 2) = []"
    unfolding flagged_example
    by (simp add: example_buckets_def hourly_bucket_def bucket_rate_def)
  then show "detect_anomalies example_buckets 2 = []" by simp
next
  assume "length results < 3"
  then show "detect_anomalies results m = []" by (simp add: detect_anomalies_spec)
next
  assume "3 \<le> length results"
  then show "detect_anomalies results m =
        map (\<lambda>b. \<lparr>a_time_bucket = b_time_bucket b, a_error_rate = bucket_rate b,
                   a_threshold = anomaly_threshold results m,
                   a_deviation = bucket_rate b - population_mean (map bucket_rate results)\<rparr>)
            (filter (\<lambda>b. bucket_rate b > anomaly_threshold results m) results)"
    by (simp add: detect_anomalies_spec)
qed

text \<open>The theorem at two buckets, and at four buckets with the rates 0, 0, 50, 50 and
  multiplier 0.5: mean 25, standard deviation 25, threshold 37.5.\<close>

theorem detect_anomalies_flags_above_threshold_witness:
  "detect_anomalies (take 2 two_level_buckets) (1 / 2) = [] \<and>
   detect_anomalies two_level_buckets (1 / 2) =
     [\<lparr>a_time_bucket = ''2026-01-13-12'', a_error_rate = 50, a_threshold = 75 / 2,
       a_deviation = 25\<rparr>,
      \<lparr>a_time_bucket = ''2026-01-13-13'', a_error_rate = 50, a_threshold = 75 / 2,
       a_deviation = 25\<rparr>]"
  using detect_anomalies_flags_above_threshold[of "take 2 two_level_buckets" "1 / 2"]
    detect_anomalies_flags_above_threshold[of two_level_buckets "1 / 2"]
  by (simp add: two_level_threshold)
     (simp add: two_level_buckets_def hourly_bucket_def bucket_rate_def population_mean_def)

text \<open>With the rates 1, 1, 1, 1, 50 and multiplier 2, the final bucket is not among the
  flagged ones, as claim C4 says it is.\<close>

theorem detect_anomalies_example_counterexample:
  "''2026-01-13-14'' \<notin> set (map a_time_bucket (detect_anomalies example_buckets 2))"
  unfolding flagged_example
  by (simp add: example_buckets_def hourly_bucket_def bucket_rate_def)

subsection \<open>Cost\<close>

text \<open>
  Claim C5. For every model name and token counts, \<open>calculate_cost\<close> is
  \<open>input_tokens / 1000000 * input_price + output_tokens / 1000000 * output_price\<close>, with
  the price pair of the model's entry in \<open>GROQ_PRICING\<close> when it has one and
  \<open>DEFAULT_PRICING\<close> otherwise. A known model with 1,000,000 input tokens and no output
  tokens costs exactly its input price; an unknown model with 1,000,000 tokens each way
  costs the sum of the default pair. The function is total: every model name either has
  an entry or has none, and both cases return a cost.
\<close>

theorem calculate_cost_formula:
  "(map_of GROQ_PRICING model = Some p \<longrightarrow>
      calculate_cost model input_tokens output_tokens =
        real_of_int input_tokens / 1000000 * input_price p +
        real_of_int output_tokens / 1000000 * output_price p) \<and>
   (model \<notin> fst ` set GROQ_PRICING \<longrightarrow>
      calculate_cost model input_tokens output_tokens =
        real_of_int input_tokens / 1000000 * input_price DEFAULT_PRICING +
        real_of_int output_tokens / 1000000 * output_price DEFAULT_PRICING) \<and>
   (map_of GROQ_PRICING model = Some p \<longrightarrow> calculate_cost model 1000000 0 = input_price p) \<and>
   (model \<notin> fst ` set GROQ_PRICING \<longrightarrow>
      calculate_cost model 1000000 1000000 =
        input_price DEFAULT_PRICING + output_price DEFAULT_PRICING) \<and>
   (map_of GROQ_PRICING model = None \<longleftrightarrow> model \<notin> fst ` set GROQ_PRICING)"
  by (auto simp add: calculate_cost_def pricing_for_def map_of_eq_None_iff[symmetric]
        simp del: map_of_eq_None_iff)

text \<open>The theorem at a model of the table and at a model that is not in it.\<close>

theorem calculate_cost_formula_witness:
  "calculate_cost ''llama3-70b-8192'' 1000000 0 = 0.59 \<and>
   calculate_cost ''llama3-70b-8192'' 2000000 500000 = 1.575 \<and>
   calculate_cost ''unknown-model'' 1000000 1000000 = 0.2 \<and>
   calculate_cost ''unknown-model'' 3000000 0 = 0.3"
  using calculate_cost_formula[of "''llama3-70b-8192''" "\<lparr>input_price = 0.59, output_price = 0.79\<rparr>" 2000000 500000]
     calculate_cost_formula[of "''unknown-model''" "\<lparr>input_price = 0.59, output_price = 0.79\<rparr>" 3000000 0]
  by (simp add: GROQ_PRICING_def DEFAULT_PRICING_def)

subsection \<open>Truncation\<close>

text \<open>
  Claim C6 at the input \<open>truncate_string("abcdef", 2)\<close>: the slice bound \<open>max_length - 3\<close>
  is negative, the slice keeps all but the last character, and the result
  \<open>"abcde..."\<close> has length 8, above the maximum 2 and above the length of the input.
\<close>

theorem truncate_string_exceeds_small_maximum:
  "truncate_string ''abcdef'' 2 = ''abcde...'' \<and>
   int (length (truncate_string ''abcdef'' 2)) > 2"
  by (simp add: truncate_string_def py_slice_to_def)

subsection \<open>Error rate\<close>

text \<open>
  Claim C8. Over the traces that pass the filters, \<open>get_error_rate\<close> returns the number of
  traces with status \<open>error\<close>, divided by the number of traces, times 100; with no such
  trace it returns 0, and it never raises. \<open>safe_divide(n, d)\<close> is \<open>n / d\<close> when \<open>d\<close> is not
  zero and the default when it is, 0 unless another default is passed.
\<close>

theorem error_rate_never_divides_by_zero:
  "get_error_rate db now start_time end_time hours trace_type =
     Inr (if selected_traces db now start_time end_time hours trace_type = [] then 0
          else real (length (filter (\<lambda>t. tr_status t = ''error'')
                       (selected_traces db now start_time end_time hours trace_type))) /
               real (length (selected_traces db now start_time end_time hours trace_type)) * 100) \<and>
   (traces db = [] \<longrightarrow> get_error_rate db now start_time end_time hours trace_type = Inr 0) \<and>
   (d \<noteq> 0 \<longrightarrow> safe_divide n d 0 = n / d) \<and>
   (d = 0 \<longrightarrow> safe_divide n d 0 = 0) \<and>
   safe_divide n 0 dflt = dflt"
  by (simp add: get_error_rate_def selected_traces_def Let_def sum_flags safe_divide_def)

text \<open>The theorem on a table with one error among two traces, on the empty table, and on
  filters that select one trace and none.\<close>

theorem error_rate_never_divides_by_zero_witness:
  "get_error_rate two_traces 0 None None None None = Inr 50 \<and>
   get_error_rate empty_database 0 None None None None = Inr 0 \<and>
   get_error_rate two_traces 0 (Some 150) None None (Some ''llm'') = Inr 100 \<and>
   get_error_rate two_traces 0 (Some 300) None None None = Inr 0 \<and>
   safe_divide 1 4 0 = 0.25 \<and> safe_divide 1 0 0 = 0"
  using error_rate_never_divides_by_zero[of two_traces 0 None None None None 4 1 0]
    error_rate_never_divides_by_zero[of empty_database 0 None None None None 0 1 0]
    error_rate_never_divides_by_zero[of two_traces 0 "Some 150" None None "Some ''llm''" 4 1 0]
    error_rate_never_divides_by_zero[of two_traces 0 "Some 300" None None None 4 1 0]
  by (simp add: selected_traces_def two_traces_def empty_database_def finished_trace_def
        time_range_def in_time_range_def has_trace_type_def)

subsection \<open>The context stack\<close>

text \<open>
  Claim C9. On a non-empty stack \<open>pop_trace\<close> returns the top frame and leaves the stack
  without it, one shallower, the session id untouched. On the empty stack it returns
  \<open>None\<close> and changes nothing. It has no raising path. Popping after a push returns the
  pushed frame and restores the context.
\<close>

theorem pop_trace_top_or_none:
  "(local_stack c \<noteq> [] \<longrightarrow>
      fst (pop_trace c) = Some (last (local_stack c)) \<and>
      local_stack c = local_stack (snd (pop_trace c)) @ [last (local_stack c)] \<and>
      local_session_id (snd (pop_trace c)) = local_session_id c \<and>
      get_stack_depth (snd (pop_trace c)) + 1 = get_stack_depth c) \<and>
   (local_stack c = [] \<longrightarrow> pop_trace c = (None, c)) \<and>
   pop_trace (push_trace trace_id trace_type name start_time metadata c) =
     (Some (last (local_stack (push_trace trace_id trace_type name start_time metadata c))), c)"
  by (simp add: pop_trace_def get_stack_depth_def push_trace_def Let_def)

text \<open>The theorem on a stack of two frames and on the empty stack.\<close>

theorem pop_trace_top_or_none_witness:
  "pop_trace \<lparr>local_stack = [example_frame ''a'' None, example_frame ''b'' (Some ''a'')],
              local_session_id = Some ''s''\<rparr> =
     (Some (example_frame ''b'' (Some ''a'')),
      \<lparr>local_stack = [example_frame ''a'' None], local_session_id = Some ''s''\<rparr>) \<and>
   pop_trace \<lparr>local_stack = [], local_session_id = None\<rparr> =
     (None, \<lparr>local_stack = [], local_session_id = None\<rparr>)"
  using pop_trace_top_or_none[of "\<lparr>local_stack = [example_frame ''a'' None, example_frame ''b'' (Some ''a'')],
              local_session_id = Some ''s''\<rparr>"]
    pop_trace_top_or_none[of "\<lparr>local_stack = [], local_session_id = None\<rparr>"]
  by (simp add: pop_trace_def)

subsection \<open>Latency histogram\<close>

text \<open>
  Claim C7 at a table with the durations 10 and 20 and \<open>num_buckets = 2\<close>: the bins are
  \<open>[10, 15)\<close> and \<open>[15, 20)\<close>, both half-open since the count query compares with
  \<open>duration_ms < bucket_max\<close> in every bin. The duration 20, the maximum, is in no bin, and
  the counts add up to 1 for 2 durations.
\<close>

theorem latency_distribution_omits_maximum:
  "get_latency_distribution two_traces 0 None None None 2 =
     Inr [\<lparr>h_bucket_min = 10, h_bucket_max = 15, h_count = 1\<rparr>,
          \<lparr>h_bucket_min = 15, h_bucket_max = 20, h_count = 0\<rparr>] \<and>
   filtered_durations two_traces (time_range 0 None None None) = [10, 20]"
  by (simp add: get_latency_distribution_def filtered_durations_two_traces sql_min_def sql_max_def histogram_def Let_def
        upt_rec[of 0] upt_rec[of 1] eval_nat_numeral)

subsection \<open>Helper lemmas for the callback\<close>

lemma get_or_create_new:
  "run_id_to_trace_id s run_id = None \<Longrightarrow>
     get_or_create_trace_id run_id s =
       Returns (uuids s (uuid_calls s))
         (s\<lparr>uuid_calls := Suc (uuid_calls s),
            run_id_to_trace_id := (run_id_to_trace_id s)(run_id \<mapsto> uuids s (uuid_calls s))\<rparr>)"
  by (simp add: get_or_create_trace_id_def and_then_def generate_trace_id_def modify_def
        gets_def lift_result_def)

lemma get_or_create_known:
  "run_id_to_trace_id s run_id = Some t \<Longrightarrow> get_or_create_trace_id run_id s = Returns t s"
  by (simp add: get_or_create_trace_id_def and_then_def gets_def lift_result_def)

lemma inj_example_uuids: "inj example_uuids"
proof (rule injI)
  fix a b assume "example_uuids a = example_uuids b"
  then have "length (example_uuids a) = length (example_uuids b)" by simp
  then show "a = b" by (simp add: example_uuids_def)
qed

lemma roe_Returns: "raises_only_Exception (Returns x)"
  by (simp add: raises_only_Exception_def)

lemma roe_and_then:
  "raises_only_Exception m \<Longrightarrow> (\<And>x. raises_only_Exception (f x)) \<Longrightarrow>
     raises_only_Exception (and_then m f)"
  unfolding raises_only_Exception_def and_then_def
  by (auto split: outcome.splits)

lemma roe_gets: "raises_only_Exception (gets f)"
  by (simp add: raises_only_Exception_def gets_def)

lemma roe_modify: "raises_only_Exception (modify f)"
  by (simp add: raises_only_Exception_def modify_def)

lemma roe_generate_trace_id: "raises_only_Exception generate_trace_id"
  by (simp add: raises_only_Exception_def generate_trace_id_def)

lemma roe_get_current_timestamp: "raises_only_Exception get_current_timestamp"
  by (simp add: raises_only_Exception_def get_current_timestamp_def)

lemma roe_lift_result:
  "(\<And>e. r = Inl e \<Longrightarrow> is_Exception e) \<Longrightarrow> raises_only_Exception (lift_result r)"
  by (auto simp add: raises_only_Exception_def lift_result_def split: sum.splits)

lemma roe_if:
  "raises_only_Exception a \<Longrightarrow> raises_only_Exception b \<Longrightarrow>
     raises_only_Exception (if c then a else b)"
  by simp

lemma roe_case_option:
  "raises_only_Exception a \<Longrightarrow> (\<And>y. raises_only_Exception (b y)) \<Longrightarrow>
     raises_only_Exception (case x of None \<Rightarrow> a | Some y \<Rightarrow> b y)"
  by (cases x) simp_all

lemma roe_execute_write:
  "(\<And>d e. statement d = Inl e \<Longrightarrow> is_Exception e) \<Longrightarrow>
     raises_only_Exception (execute_write statement)"
  by (auto simp add: raises_only_Exception_def execute_write_def Let_def
        split: if_splits sum.splits)

lemma insert_trace_raises: "insert_trace row d = Inl e \<Longrightarrow> is_Exception e"
  by (auto simp add: insert_trace_def split: if_splits option.splits)

lemma update_trace_raises: "update_trace t en du st msg d = Inl e \<Longrightarrow> is_Exception e"
  by (simp add: update_trace_def)

lemma insert_llm_call_raises: "insert_llm_call row d = Inl e \<Longrightarrow> is_Exception e"
  by (auto simp add: insert_llm_call_def split: if_splits)

lemma insert_event_raises: "insert_event row d = Inl e \<Longrightarrow> is_Exception e"
  by (auto simp add: insert_event_def split: if_splits)

lemma name_or_last_id_raises: "name_or_last_id serialized = Inl e \<Longrightarrow> is_Exception e"
  by (auto simp add: name_or_last_id_def py_index_def split: sum.splits if_splits option.splits)

lemma roe_create_trace: "raises_only_Exception (create_trace a b c d e f g)"
  unfolding create_trace_def
  by (intro roe_and_then roe_execute_write roe_Returns) (rule insert_trace_raises)

lemma roe_update_trace_completion: "raises_only_Exception (update_trace_completion a b c d e)"
  unfolding update_trace_completion_def Let_def
  by (intro roe_execute_write) (rule update_trace_raises)

lemma roe_create_llm_call: "raises_only_Exception (create_llm_call a b c d e f g h i j)"
  unfolding create_llm_call_def
  by (intro roe_execute_write) (auto split: option.splits dest: insert_llm_call_raises)

lemma roe_create_event: "raises_only_Exception (create_event a b c d e)"
  unfolding create_event_def
  by (intro roe_execute_write) (rule insert_event_raises)

lemma roe_get_or_create_trace_id: "raises_only_Exception (get_or_create_trace_id run_id)"
  by (auto simp add: raises_only_Exception_def get_or_create_trace_id_def and_then_def
        generate_trace_id_def modify_def gets_def lift_result_def
        split: if_splits outcome.splits option.splits)

lemma roe_parent_or_current: "raises_only_Exception (parent_or_current parent_run_id)"
  unfolding parent_or_current_def
  by (intro roe_case_option roe_gets roe_and_then roe_get_or_create_trace_id roe_Returns)

lemma roe_del_run_id_to_trace_id: "raises_only_Exception (del_run_id_to_trace_id run_id)"
  by (auto simp add: raises_only_Exception_def del_run_id_to_trace_id_def split: if_splits)

lemma roe_del_run_start_times: "raises_only_Exception (del_run_start_times run_id)"
  by (auto simp add: raises_only_Exception_def del_run_start_times_def split: if_splits)

lemma roe_guarded_cleanup: "raises_only_Exception (guarded_cleanup run_id)"
  by (auto simp add: raises_only_Exception_def guarded_cleanup_def and_then_def
        del_run_id_to_trace_id_def del_run_start_times_def split: if_splits outcome.splits)

lemma roe_set_run_start_time: "raises_only_Exception (set_run_start_time r t)"
  unfolding set_run_start_time_def by (rule roe_modify)

lemma roe_recorded_start_time: "raises_only_Exception (recorded_start_time r t)"
  unfolding recorded_start_time_def by (rule roe_gets)

lemma roe_context_push: "raises_only_Exception (context_push a b c d e)"
  unfolding context_push_def by (rule roe_modify)

lemma roe_context_pop: "raises_only_Exception context_pop"
  by (simp add: raises_only_Exception_def context_pop_def)

lemmas roe_intros =
  roe_and_then roe_Returns roe_gets roe_modify roe_generate_trace_id roe_get_current_timestamp
  roe_if roe_case_option roe_create_trace roe_update_trace_completion roe_create_llm_call
  roe_create_event roe_get_or_create_trace_id roe_parent_or_current
  roe_del_run_id_to_trace_id roe_del_run_start_times roe_guarded_cleanup
  roe_set_run_start_time roe_recorded_start_time roe_context_push roe_context_pop

lemma roe_on_llm_start_body:
  "raises_only_Exception (on_llm_start_body serialized prompts run_id parent_run_id tags metadata)"
  unfolding on_llm_start_body_def
  by (intro roe_intros roe_lift_result) (rule name_or_last_id_raises)

lemma usage_get_raises: "usage_get u key dflt = Inl e \<Longrightarrow> is_Exception e"
  by (auto simp add: usage_get_def split: option.splits)

lemma py_add_raises: "py_add a b = Inl e \<Longrightarrow> is_Exception e"
  by (auto simp add: py_add_def split: option.splits)

lemma calculate_cost_of_raises: "calculate_cost_of m i o' = Inl e \<Longrightarrow> is_Exception e"
  by (auto simp add: calculate_cost_of_def split: option.splits)

lemma roe_on_llm_end_body: "raises_only_Exception (on_llm_end_body response run_id parent_run_id)"
  unfolding on_llm_end_body_def Let_def
  by (intro roe_intros roe_lift_result)
     (erule usage_get_raises py_add_raises calculate_cost_of_raises)+

lemma roe_on_llm_error_body: "raises_only_Exception (on_llm_error_body error run_id parent_run_id)"
  unfolding on_llm_error_body_def by (intro roe_intros)

lemma roe_on_chain_start_body:
  "raises_only_Exception (on_chain_start_body serialized inputs run_id parent_run_id tags metadata)"
  unfolding on_chain_start_body_def
  by (intro roe_intros roe_lift_result) (rule name_or_last_id_raises)

lemma roe_on_chain_end_body: "raises_only_Exception (on_chain_end_body outputs run_id parent_run_id)"
  unfolding on_chain_end_body_def by (intro roe_intros)

lemma roe_on_chain_error_body: "raises_only_Exception (on_chain_error_body error run_id parent_run_id)"
  unfolding on_chain_error_body_def by (intro roe_intros)

lemma roe_on_tool_start_body:
  "raises_only_Exception (on_tool_start_body serialized input_str run_id parent_run_id tags metadata)"
  unfolding on_tool_start_body_def Let_def by (intro roe_intros)

lemma roe_on_tool_end_body: "raises_only_Exception (on_tool_end_body tool_output run_id parent_run_id)"
  unfolding on_tool_end_body_def by (intro roe_intros)

lemma roe_on_tool_error_body: "raises_only_Exception (on_tool_error_body error run_id parent_run_id)"
  unfolding on_tool_error_body_def by (intro roe_intros)

lemma roe_on_agent_action_body: "raises_only_Exception (on_agent_action_body action run_id parent_run_id)"
  unfolding on_agent_action_body_def by (intro roe_intros)

lemma roe_on_agent_finish_body: "raises_only_Exception (on_agent_finish_body finish run_id parent_run_id)"
  unfolding on_agent_finish_body_def by (intro roe_intros)

lemma safe_execute_returns:
  "raises_only_Exception func \<Longrightarrow> returns_normally (safe_execute func s)"
  by (auto simp add: raises_only_Exception_def safe_execute_def returns_normally_def
        split: outcome.splits)

lemma safe_execute_passes_others:
  "func s = Raises KeyboardInterrupt s' \<Longrightarrow> safe_execute func s = Raises KeyboardInterrupt s'"
  by (simp add: safe_execute_def)

lemmas action_defs =
  and_then_def gets_def modify_def lift_result_def generate_trace_id_def
  get_current_timestamp_def set_run_start_time_def parent_or_current_def create_trace_def
  execute_write_def context_push_def get_or_create_trace_id_def

lemma on_llm_start_accepted:
  assumes "name_or_last_id serialized = Inr model" and "write_accepted s run_id"
  shows "\<exists>s'. on_llm_start serialized prompts run_id None tags metadata s = Returns () s' \<and>
     traces (store s') =
       traces (store s) @ [pending_trace s run_id ''llm'' (''llm_'' @ model) tags metadata] \<and>
     local_stack (ctx s') =
       local_stack (ctx s) @ [pushed_frame s run_id ''llm'' (''llm_'' @ model) tags metadata] \<and>
     printed s' = printed s \<and>
     run_id_to_trace_id s' run_id = Some (resolved_trace_id s run_id) \<and>
     run_start_times s' run_id = Some (clock s (clock_calls s))"
proof (cases "run_id_to_trace_id s run_id")
  case None
  with assms show ?thesis
    by (auto simp add: on_llm_start_def on_llm_start_body_def safe_execute_def action_defs
        write_accepted_def resolved_trace_id_def pending_trace_def pushed_frame_def
        insert_trace_def push_trace_def Let_def get_current_trace_id_def trace_ids_def
        split: option.splits if_splits)
next
  case (Some t)
  with assms show ?thesis
    by (auto simp add: on_llm_start_def on_llm_start_body_def safe_execute_def action_defs
        write_accepted_def resolved_trace_id_def pending_trace_def pushed_frame_def
        insert_trace_def push_trace_def Let_def get_current_trace_id_def trace_ids_def
        split: option.splits if_splits)
qed


lemma on_chain_start_accepted:
  assumes "name_or_last_id serialized = Inr chain_name" and "write_accepted s run_id"
  shows "\<exists>s'. on_chain_start serialized inputs run_id None tags metadata s = Returns () s' \<and>
     traces (store s') =
       traces (store s) @
         [pending_trace s run_id ''chain'' (''chain_'' @ chain_name) tags metadata] \<and>
     local_stack (ctx s') =
       local_stack (ctx s) @
         [pushed_frame s run_id ''chain'' (''chain_'' @ chain_name) tags metadata] \<and>
     run_id_to_trace_id s' run_id = Some (resolved_trace_id s run_id) \<and>
     run_start_times s' run_id = Some (clock s (clock_calls s))"
proof (cases "run_id_to_trace_id s run_id")
  case None
  with assms show ?thesis
    by (auto simp add: on_chain_start_def on_chain_start_body_def safe_execute_def action_defs
        write_accepted_def resolved_trace_id_def pending_trace_def pushed_frame_def
        insert_trace_def push_trace_def Let_def get_current_trace_id_def trace_ids_def
        create_event_def insert_event_def
        split: option.splits if_splits)
next
  case (Some t)
  with assms show ?thesis
    by (auto simp add: on_chain_start_def on_chain_start_body_def safe_execute_def action_defs
        write_accepted_def resolved_trace_id_def pending_trace_def pushed_frame_def
        insert_trace_def push_trace_def Let_def get_current_trace_id_def trace_ids_def
        create_event_def insert_event_def
        split: option.splits if_splits)
qed


lemmas callback_defs =
  on_llm_start_def on_llm_start_body_def on_chain_start_def on_chain_start_body_def
  on_llm_end_def on_llm_end_body_def
  safe_execute_def action_defs insert_trace_def push_trace_def Let_def
  get_current_trace_id_def trace_ids_def create_event_def insert_event_def
  name_or_last_id_def py_index_def combine_metadata_def json_or_null_def
  state_of_def logged_def

lemma after_chain_start_eq:
  "after_chain_start =
     (initial_state (\<lambda>n. False))
        \<lparr>run_id_to_trace_id := [''run-a'' \<mapsto> ''trace-x''],
         run_start_times := [''run-a'' \<mapsto> 1000],
         ctx := \<lparr>local_stack =
                   [\<lparr>fr_trace_id = ''trace-x'', fr_trace_type = ''chain'',
                     fr_name = ''chain_RunnableSequence'', fr_start_time = 1000,
                     fr_parent_trace_id = None,
                     fr_metadata = [(''user_id'', JStr ''user_456'')]\<rparr>],
                 local_session_id = Some ''my_session_123''\<rparr>,
         store := \<lparr>traces =
                     [\<lparr>tr_trace_id = ''trace-x'', tr_parent_trace_id = None,
                       tr_session_id = Some ''my_session_123'', tr_trace_type = ''chain'',
                       tr_name = ''chain_RunnableSequence'', tr_start_time = 1000,
                       tr_end_time = None, tr_duration_ms = None, tr_status = ''pending'',
                       tr_error_message = None,
                       tr_metadata = Some [(''user_id'', JStr ''user_456'')]\<rparr>],
                   llm_calls = [],
                   events =
                     [\<lparr>ev_trace_id = ''trace-x'', ev_event_type = ''chain_start'',
                       ev_event_name = ''RunnableSequence'', ev_timestamp = 1000,
                       ev_data = Some [(''inputs'', ''question'')]\<rparr>]\<rparr>,
         uuid_calls := 1, clock_calls := 1, db_writes := 2\<rparr>"
  by (simp add: after_chain_start_def callback_defs initial_state_def example_uuids_def
        demo_chain_def empty_database_def)

lemma chat_model_name: "name_or_last_id chat_model = Inr ''ChatGroq''"
  by (simp add: name_or_last_id_def chat_model_def py_index_def)

subsection \<open>The stack holds recorded traces only\<close>

lemma ksr_Returns: "keeps_stack_recorded (Returns x)"
  by (simp add: keeps_stack_recorded_def state_of_def)

lemma ksr_and_then:
  assumes "keeps_stack_recorded m" and "\<And>x. keeps_stack_recorded (f x)"
  shows "keeps_stack_recorded (and_then m f)"
  unfolding keeps_stack_recorded_def
proof (intro allI impI)
  fix s assume i: "stack_recorded s"
  then have m: "stack_recorded (state_of (m s))"
    using assms(1) by (simp add: keeps_stack_recorded_def)
  show "stack_recorded (state_of (and_then m f s))"
  proof (cases "m s")
    case (Returns x s')
    with m have "stack_recorded s'" by (simp add: state_of_def)
    then have "stack_recorded (state_of (f x s'))"
      using assms(2)[of x] by (simp add: keeps_stack_recorded_def)
    with Returns show ?thesis by (simp add: and_then_def)
  next
    case (Raises e s')
    with m show ?thesis by (simp add: and_then_def state_of_def)
  qed
qed

lemma ksr_gets: "keeps_stack_recorded (gets f)"
  by (simp add: keeps_stack_recorded_def gets_def state_of_def)

lemma ksr_lift_result: "keeps_stack_recorded (lift_result r)"
  by (simp add: keeps_stack_recorded_def lift_result_def state_of_def split: sum.splits)

lemma ksr_if:
  "keeps_stack_recorded a \<Longrightarrow> keeps_stack_recorded b \<Longrightarrow>
     keeps_stack_recorded (if c then a else b)"
  by simp

lemma ksr_case_option:
  "keeps_stack_recorded a \<Longrightarrow> (\<And>y. keeps_stack_recorded (b y)) \<Longrightarrow>
     keeps_stack_recorded (case x of None \<Rightarrow> a | Some y \<Rightarrow> b y)"
  by (cases x) simp_all

lemma ksr_get_current_timestamp: "keeps_stack_recorded get_current_timestamp"
  by (simp add: keeps_stack_recorded_def get_current_timestamp_def state_of_def
        stack_recorded_def)

lemma ksr_get_or_create_trace_id: "keeps_stack_recorded (get_or_create_trace_id run_id)"
  unfolding keeps_stack_recorded_def
proof (intro allI impI)
  fix s assume "stack_recorded s"
  then show "stack_recorded (state_of (get_or_create_trace_id run_id s))"
    by (cases "run_id_to_trace_id s run_id")
       (simp_all add: get_or_create_new get_or_create_known state_of_def stack_recorded_def)
qed

lemma ksr_parent_or_current: "keeps_stack_recorded (parent_or_current parent_run_id)"
  unfolding parent_or_current_def
  by (intro ksr_case_option ksr_gets ksr_and_then ksr_get_or_create_trace_id ksr_Returns)

lemma ksr_set_run_start_time: "keeps_stack_recorded (set_run_start_time r t)"
  by (simp add: keeps_stack_recorded_def set_run_start_time_def modify_def state_of_def
        stack_recorded_def)

lemma ksr_recorded_start_time: "keeps_stack_recorded (recorded_start_time r t)"
  unfolding recorded_start_time_def by (rule ksr_gets)

lemma ksr_del_run_id_to_trace_id: "keeps_stack_recorded (del_run_id_to_trace_id run_id)"
  by (simp add: keeps_stack_recorded_def del_run_id_to_trace_id_def state_of_def
        stack_recorded_def)

lemma ksr_del_run_start_times: "keeps_stack_recorded (del_run_start_times run_id)"
  by (simp add: keeps_stack_recorded_def del_run_start_times_def state_of_def
        stack_recorded_def)

lemma ksr_guarded_cleanup: "keeps_stack_recorded (guarded_cleanup run_id)"
  unfolding guarded_cleanup_def
  by (intro ksr_and_then)
     (simp_all add: keeps_stack_recorded_def del_run_id_to_trace_id_def
        del_run_start_times_def state_of_def stack_recorded_def)

lemma ksr_context_pop: "keeps_stack_recorded context_pop"
  by (auto simp add: keeps_stack_recorded_def context_pop_def state_of_def
        stack_recorded_def pop_trace_def dest: in_set_butlastD)

lemma ksr_execute_write:
  assumes "\<And>d d'. statement d = Inr d' \<Longrightarrow> trace_ids d \<subseteq> trace_ids d'"
  shows "keeps_stack_recorded (execute_write statement)"
  unfolding keeps_stack_recorded_def
proof (intro allI impI)
  fix s assume i: "stack_recorded s"
  show "stack_recorded (state_of (execute_write statement s))"
  proof (cases "statement (store s)")
    case (Inl e)
    with i show ?thesis
      by (simp add: execute_write_def Let_def state_of_def stack_recorded_def)
  next
    case (Inr d')
    with assms have "trace_ids (store s) \<subseteq> trace_ids d'" by simp
    with i Inr show ?thesis
      by (auto simp add: execute_write_def Let_def state_of_def stack_recorded_def)
  qed
qed

lemma insert_trace_ids:
  "insert_trace row d = Inr d' \<Longrightarrow> trace_ids d' = insert (tr_trace_id row) (trace_ids d)"
  by (auto simp add: insert_trace_def trace_ids_def split: if_splits option.splits)

lemma update_trace_ids:
  assumes "update_trace t en du st msg d = Inr d'"
  shows "trace_ids d' = trace_ids d"
proof -
  define f where "f = (\<lambda>row::trace_row. if tr_trace_id row = t
                      then row\<lparr>tr_end_time := Some en, tr_duration_ms := Some du,
                               tr_status := st, tr_error_message := msg\<rparr>
                      else row)"
  have f: "tr_trace_id (f row) = tr_trace_id row" for row
    by (simp add: f_def)
  from assms have "traces d' = map f (traces d)"
    by (auto simp add: update_trace_def f_def)
  then have "map tr_trace_id (traces d') = map tr_trace_id (traces d)"
    by (simp add: f comp_def)
  then show ?thesis by (simp only: trace_ids_def)
qed

lemma insert_llm_call_ids: "insert_llm_call row d = Inr d' \<Longrightarrow> trace_ids d' = trace_ids d"
  by (auto simp add: insert_llm_call_def trace_ids_def split: if_splits)

lemma insert_event_ids: "insert_event row d = Inr d' \<Longrightarrow> trace_ids d' = trace_ids d"
  by (auto simp add: insert_event_def trace_ids_def split: if_splits)

lemma insert_trace_mono: "insert_trace row d = Inr d' \<Longrightarrow> trace_ids d \<subseteq> trace_ids d'"
  by (simp add: insert_trace_ids subset_insertI)

lemma insert_trace_member: "insert_trace row d = Inr d' \<Longrightarrow> tr_trace_id row \<in> trace_ids d'"
  by (simp add: insert_trace_ids)

lemma update_trace_mono:
  "update_trace t en du st msg d = Inr d' \<Longrightarrow> trace_ids d \<subseteq> trace_ids d'"
  by (simp add: update_trace_ids)

lemma insert_llm_call_mono: "insert_llm_call row d = Inr d' \<Longrightarrow> trace_ids d \<subseteq> trace_ids d'"
  by (simp add: insert_llm_call_ids)

lemma insert_event_mono: "insert_event row d = Inr d' \<Longrightarrow> trace_ids d \<subseteq> trace_ids d'"
  by (simp add: insert_event_ids)

lemma ksr_create_trace: "keeps_stack_recorded (create_trace a b c d e f g)"
  unfolding create_trace_def
  by (intro ksr_and_then ksr_execute_write ksr_Returns) (rule insert_trace_mono)

lemma ksr_update_trace_completion: "keeps_stack_recorded (update_trace_completion a b c d e)"
  unfolding update_trace_completion_def Let_def
  by (intro ksr_execute_write) (rule update_trace_mono)

lemma ksr_create_llm_call: "keeps_stack_recorded (create_llm_call a b c d e f g h i j)"
  unfolding create_llm_call_def
  by (intro ksr_execute_write) (auto split: option.splits dest: insert_llm_call_mono)

lemma ksr_create_event: "keeps_stack_recorded (create_event a b c d e)"
  unfolding create_event_def
  by (intro ksr_execute_write) (rule insert_event_mono)

lemma create_trace_returns:
  assumes "create_trace trace_id ty nm st sid parent md s = Returns x s'"
  shows "trace_id \<in> trace_ids (store s')"
proof -
  let ?row = "\<lparr>tr_trace_id = trace_id, tr_parent_trace_id = parent,
           tr_session_id = sid, tr_trace_type = ty, tr_name = nm,
           tr_start_time = st, tr_end_time = None, tr_duration_ms = None,
           tr_status = ''pending'', tr_error_message = None,
           tr_metadata = json_or_null md\<rparr>"
  from assms obtain d' where d: "insert_trace ?row (store s) = Inr d'" "store s' = d'"
    by (auto simp add: create_trace_def and_then_def execute_write_def Let_def
          split: if_splits sum.splits)
  from insert_trace_member[OF d(1)] d(2) show ?thesis by simp
qed

text \<open>A push right after the trace was created.\<close>

lemma ksr_create_then_push:
  assumes "\<And>x. keeps_stack_recorded (k x)"
  shows "keeps_stack_recorded
     (and_then (create_trace trace_id ty nm st sid parent md)
        (\<lambda>_. and_then (context_push trace_id ty' nm' st' md') k))"
  unfolding keeps_stack_recorded_def
proof (intro allI impI)
  fix s assume i: "stack_recorded s"
  let ?c = "create_trace trace_id ty nm st sid parent md"
  show "stack_recorded (state_of (and_then ?c
        (\<lambda>_. and_then (context_push trace_id ty' nm' st' md') k) s))"
  proof (cases "?c s")
    case (Raises e s')
    have "stack_recorded (state_of (?c s))"
      using ksr_create_trace i by (simp add: keeps_stack_recorded_def)
    with Raises show ?thesis by (simp add: and_then_def state_of_def)
  next
    case (Returns x s')
    have "stack_recorded (state_of (?c s))"
      using ksr_create_trace i by (simp add: keeps_stack_recorded_def)
    with Returns have i': "stack_recorded s'" by (simp add: state_of_def)
    from Returns have "trace_id \<in> trace_ids (store s')"
      by (rule create_trace_returns)
    with i' have p: "stack_recorded (s'\<lparr>ctx := push_trace trace_id ty' nm' st' md' (ctx s')\<rparr>)"
      by (auto simp add: stack_recorded_def push_trace_def)
    have "stack_recorded (state_of (k () (s'\<lparr>ctx := push_trace trace_id ty' nm' st' md' (ctx s')\<rparr>)))"
      using assms[of "()"] p by (simp add: keeps_stack_recorded_def)
    with Returns show ?thesis
      by (simp add: and_then_def context_push_def modify_def)
  qed
qed

lemma ksr_safe_execute:
  assumes "keeps_stack_recorded m"
  shows "keeps_stack_recorded (safe_execute m)"
  unfolding keeps_stack_recorded_def
proof (intro allI impI)
  fix s assume "stack_recorded s"
  then have m: "stack_recorded (state_of (m s))"
    using assms by (simp add: keeps_stack_recorded_def)
  show "stack_recorded (state_of (safe_execute m s))"
  proof (cases "m s")
    case (Returns x s')
    with m show ?thesis by (simp add: safe_execute_def state_of_def)
  next
    case (Raises e s')
    with m show ?thesis by (simp add: safe_execute_def state_of_def stack_recorded_def)
  qed
qed

lemmas ksr_intros =
  ksr_and_then ksr_Returns ksr_gets ksr_lift_result ksr_if ksr_case_option
  ksr_get_current_timestamp ksr_get_or_create_trace_id ksr_parent_or_current
  ksr_set_run_start_time ksr_recorded_start_time ksr_del_run_id_to_trace_id
  ksr_del_run_start_times ksr_guarded_cleanup ksr_context_pop ksr_create_trace
  ksr_update_trace_completion ksr_create_llm_call ksr_create_event

lemma ksr_on_llm_start:
  "keeps_stack_recorded (on_llm_start serialized prompts run_id parent_run_id tags metadata)"
proof -
  have push: "keeps_stack_recorded
     (and_then (create_trace trace_id ty nm st sid parent md)
        (\<lambda>_. context_push trace_id ty' nm' st' md'))" for trace_id ty nm st sid parent md ty' nm' st' md'
  proof -
    have "context_push trace_id ty' nm' st' md' =
          and_then (context_push trace_id ty' nm' st' md') Returns"
      by (rule ext) (simp add: and_then_def context_push_def modify_def)
    then show ?thesis
      using ksr_create_then_push[of Returns trace_id ty nm st sid parent md ty' nm' st' md']
      by (simp add: ksr_Returns)
  qed
  show ?thesis
    unfolding on_llm_start_def on_llm_start_body_def
    by (intro ksr_safe_execute ksr_and_then push ksr_intros)
qed

lemma ksr_on_chain_start:
  "keeps_stack_recorded (on_chain_start serialized inputs run_id parent_run_id tags metadata)"
  unfolding on_chain_start_def on_chain_start_body_def
  by (intro ksr_safe_execute ksr_and_then ksr_create_then_push ksr_intros)

lemma ksr_on_llm_end: "keeps_stack_recorded (on_llm_end response run_id parent_run_id)"
  unfolding on_llm_end_def on_llm_end_body_def Let_def
  by (intro ksr_safe_execute ksr_intros)

lemma ksr_on_llm_error: "keeps_stack_recorded (on_llm_error error run_id parent_run_id)"
  unfolding on_llm_error_def on_llm_error_body_def
  by (intro ksr_safe_execute ksr_intros)

lemma ksr_on_chain_end: "keeps_stack_recorded (on_chain_end outputs run_id parent_run_id)"
  unfolding on_chain_end_def on_chain_end_body_def
  by (intro ksr_safe_execute ksr_intros)

lemma ksr_on_chain_error: "keeps_stack_recorded (on_chain_error error run_id parent_run_id)"
  unfolding on_chain_error_def on_chain_error_body_def
  by (intro ksr_safe_execute ksr_intros)

lemma ksr_on_tool_start:
  "keeps_stack_recorded (on_tool_start serialized input_str run_id parent_run_id tags metadata)"
  unfolding on_tool_start_def on_tool_start_body_def Let_def
  by (intro ksr_safe_execute ksr_intros)

lemma ksr_on_tool_end: "keeps_stack_recorded (on_tool_end tool_output run_id parent_run_id)"
  unfolding on_tool_end_def on_tool_end_body_def
  by (intro ksr_safe_execute ksr_intros)

lemma ksr_on_tool_error: "keeps_stack_recorded (on_tool_error error run_id parent_run_id)"
  unfolding on_tool_error_def on_tool_error_body_def
  by (intro ksr_safe_execute ksr_intros)

lemma ksr_on_agent_action: "keeps_stack_recorded (on_agent_action action run_id parent_run_id)"
  unfolding on_agent_action_def on_agent_action_body_def
  by (intro ksr_safe_execute ksr_intros)

lemma ksr_on_agent_finish: "keeps_stack_recorded (on_agent_finish finish run_id parent_run_id)"
  unfolding on_agent_finish_def on_agent_finish_body_def
  by (intro ksr_safe_execute ksr_intros)

lemma on_llm_start_rows:
  "(traces (store (state_of (on_llm_start serialized prompts run_id None tags metadata s))) =
      traces (store s) \<and>
    local_stack (ctx (state_of (on_llm_start serialized prompts run_id None tags metadata s))) =
      local_stack (ctx s)) \<or>
   (\<exists>model.
      traces (store (state_of (on_llm_start serialized prompts run_id None tags metadata s))) =
        traces (store s) @ [pending_trace s run_id ''llm'' (''llm_'' @ model) tags metadata] \<and>
      local_stack (ctx (state_of (on_llm_start serialized prompts run_id None tags metadata s))) =
        local_stack (ctx s) @ [pushed_frame s run_id ''llm'' (''llm_'' @ model) tags metadata])"
proof (cases "run_id_to_trace_id s run_id")
  case None
  then show ?thesis
    by (cases "name_or_last_id serialized")
       (auto simp add: on_llm_start_def on_llm_start_body_def safe_execute_def action_defs
        resolved_trace_id_def pending_trace_def pushed_frame_def state_of_def
        insert_trace_def push_trace_def Let_def
        split: option.splits if_splits)
next
  case (Some t)
  then show ?thesis
    by (cases "name_or_last_id serialized")
       (auto simp add: on_llm_start_def on_llm_start_body_def safe_execute_def action_defs
        resolved_trace_id_def pending_trace_def pushed_frame_def state_of_def
        insert_trace_def push_trace_def Let_def
        split: option.splits if_splits)
qed

lemma on_chain_start_rows:
  "(traces (store (state_of (on_chain_start serialized inputs run_id None tags metadata s))) =
      traces (store s) \<and>
    local_stack (ctx (state_of (on_chain_start serialized inputs run_id None tags metadata s))) =
      local_stack (ctx s)) \<or>
   (\<exists>chain_name.
      traces (store (state_of (on_chain_start serialized inputs run_id None tags metadata s))) =
        traces (store s) @
          [pending_trace s run_id ''chain'' (''chain_'' @ chain_name) tags metadata] \<and>
      local_stack (ctx (state_of (on_chain_start serialized inputs run_id None tags metadata s))) =
        local_stack (ctx s) @
          [pushed_frame s run_id ''chain'' (''chain_'' @ chain_name) tags metadata])"
proof (cases "run_id_to_trace_id s run_id")
  case None
  then show ?thesis
    by (cases "name_or_last_id serialized")
       (auto simp add: on_chain_start_def on_chain_start_body_def safe_execute_def action_defs
        resolved_trace_id_def pending_trace_def pushed_frame_def state_of_def
        insert_trace_def push_trace_def Let_def create_event_def insert_event_def
        split: option.splits if_splits)
next
  case (Some t)
  then show ?thesis
    by (cases "name_or_last_id serialized")
       (auto simp add: on_chain_start_def on_chain_start_body_def safe_execute_def action_defs
        resolved_trace_id_def pending_trace_def pushed_frame_def state_of_def
        insert_trace_def push_trace_def Let_def create_event_def insert_event_def
        split: option.splits if_splits)
qed

lemma accepted_if_recorded:
  assumes "stack_recorded s" "\<not> db_faults s (db_writes s)"
    "resolved_trace_id s run_id \<notin> trace_ids (store s)"
  shows "write_accepted s run_id"
proof -
  have "local_stack (ctx s) \<noteq> [] \<Longrightarrow>
        fr_trace_id (last (local_stack (ctx s))) \<in> trace_ids (store s)"
    using assms(1) unfolding stack_recorded_def
    by (metis (no_types, lifting) image_eqI last_in_set list.set_map subsetD)
  with assms(2,3) show ?thesis
    by (simp add: write_accepted_def get_current_trace_id_def)
qed

lemma stack_recorded_empty: "local_stack (ctx s) = [] \<Longrightarrow> stack_recorded s"
  by (simp add: stack_recorded_def)

lemma keeps_stack_recordedD:
  "keeps_stack_recorded m \<Longrightarrow> stack_recorded s \<Longrightarrow> stack_recorded (state_of (m s))"
  by (simp add: keeps_stack_recorded_def)

subsection \<open>Run correlation\<close>

text \<open>
  Claim C10. The first call of \<open>_get_or_create_trace_id\<close> for a run id draws the next
  trace id from the generator and stores it under the run id. Every call returns the
  stored id, and a call for a run id that has one returns it and leaves the callback as
  it was: the second call repeats the first one's answer and changes nothing. No call
  changes the entry of another run id, and no call raises. The drawn id is new to the
  map when the generator never repeats itself and the map holds only ids drawn before.
\<close>

theorem get_or_create_trace_id_idempotent:
  "(run_id_to_trace_id s run_id = None \<longrightarrow>
      get_or_create_trace_id run_id s =
        Returns (uuids s (uuid_calls s))
          (s\<lparr>uuid_calls := Suc (uuid_calls s),
             run_id_to_trace_id := (run_id_to_trace_id s)(run_id \<mapsto> uuids s (uuid_calls s))\<rparr>)) \<and>
   (run_id_to_trace_id s run_id = Some t \<longrightarrow> get_or_create_trace_id run_id s = Returns t s) \<and>
   (\<exists>t' s'. get_or_create_trace_id run_id s = Returns t' s' \<and>
        run_id_to_trace_id s' run_id = Some t' \<and>
        get_or_create_trace_id run_id s' = Returns t' s' \<and>
        (\<forall>other. other \<noteq> run_id \<longrightarrow> run_id_to_trace_id s' other = run_id_to_trace_id s other)) \<and>
   (run_id_to_trace_id s run_id = None \<and> inj (uuids s) \<and>
      ran (run_id_to_trace_id s) \<subseteq> uuids s ` {..<uuid_calls s} \<longrightarrow>
      uuids s (uuid_calls s) \<notin> ran (run_id_to_trace_id s))"
proof (intro conjI impI)
  assume "run_id_to_trace_id s run_id = None"
  then show "get_or_create_trace_id run_id s =
        Returns (uuids s (uuid_calls s))
          (s\<lparr>uuid_calls := Suc (uuid_calls s),
             run_id_to_trace_id := (run_id_to_trace_id s)(run_id \<mapsto> uuids s (uuid_calls s))\<rparr>)"
    by (rule get_or_create_new)
next
  assume "run_id_to_trace_id s run_id = Some t"
  then show "get_or_create_trace_id run_id s = Returns t s"
    by (rule get_or_create_known)
next
  show "\<exists>t' s'. get_or_create_trace_id run_id s = Returns t' s' \<and>
        run_id_to_trace_id s' run_id = Some t' \<and>
        get_or_create_trace_id run_id s' = Returns t' s' \<and>
        (\<forall>other. other \<noteq> run_id \<longrightarrow> run_id_to_trace_id s' other = run_id_to_trace_id s other)"
  proof (cases "run_id_to_trace_id s run_id")
    case None
    then show ?thesis
      by (simp add: get_or_create_new get_or_create_known)
  next
    case (Some known)
    then show ?thesis by (simp add: get_or_create_known)
  qed
next
  assume a: "run_id_to_trace_id s run_id = None \<and> inj (uuids s) \<and>
      ran (run_id_to_trace_id s) \<subseteq> uuids s ` {..<uuid_calls s}"
  show "uuids s (uuid_calls s) \<notin> ran (run_id_to_trace_id s)"
  proof
    assume "uuids s (uuid_calls s) \<in> ran (run_id_to_trace_id s)"
    with a obtain n where "n < uuid_calls s" "uuids s (uuid_calls s) = uuids s n" by auto
    with a show False by (auto dest: injD)
  qed
qed

text \<open>The theorem at the initial callback and at the callback after a first call.\<close>

theorem get_or_create_trace_id_idempotent_witness:
  "get_or_create_trace_id ''run-1'' (initial_state (\<lambda>n. False)) =
     Returns ''trace-x''
       ((initial_state (\<lambda>n. False))
          \<lparr>uuid_calls := 1, run_id_to_trace_id := [''run-1'' \<mapsto> ''trace-x'']\<rparr>) \<and>
   get_or_create_trace_id ''run-1''
       ((initial_state (\<lambda>n. False))
          \<lparr>uuid_calls := 1, run_id_to_trace_id := [''run-1'' \<mapsto> ''trace-x'']\<rparr>) =
     Returns ''trace-x''
       ((initial_state (\<lambda>n. False))
          \<lparr>uuid_calls := 1, run_id_to_trace_id := [''run-1'' \<mapsto> ''trace-x'']\<rparr>) \<and>
   ''trace-x'' \<notin> ran (run_id_to_trace_id (initial_state (\<lambda>n. False)))"
  using get_or_create_trace_id_idempotent[of "initial_state (\<lambda>n. False)" "''run-1''" "''t''"]
    get_or_create_trace_id_idempotent
      [of "(initial_state (\<lambda>n. False))
          \<lparr>uuid_calls := 1, run_id_to_trace_id := [''run-1'' \<mapsto> ''trace-x'']\<rparr>"
        "''run-1''" "''trace-x''"]
    inj_example_uuids
  by (simp add: initial_state_def example_uuids_def)

subsection \<open>Parent linkage\<close>

text \<open>
  Claim C1. In every state of a path's stack, \<open>push_trace\<close> appends one frame whose
  \<open>parent_trace_id\<close> is the trace id that was on top of the stack before the push, or
  \<open>None\<close> when the stack was empty. A model-call start and a chain start without
  \<open>parent_run_id\<close> either record nothing and leave the stack alone, or append one trace row
  and push one frame, both with the top of the stack at the start as \<open>parent_trace_id\<close>.
  The second case is the one that happens when the stack holds recorded traces only,
  the write does not fail and the trace id is new to the table. All of this holds in
  every state, so in every state that a nested sequence of starts and ends reaches.
\<close>

theorem push_records_top_as_parent:
  "fr_parent_trace_id
     (last (local_stack (push_trace trace_id trace_type name start_time md c))) =
     get_current_trace_id c \<and>
   get_current_trace_id c =
     (if local_stack c = [] then None else Some (fr_trace_id (last (local_stack c)))) \<and>
   butlast (local_stack (push_trace trace_id trace_type name start_time md c)) =
     local_stack c \<and>
   tr_parent_trace_id (pending_trace s run_id trace_type name tags metadata) =
     get_current_trace_id (ctx s) \<and>
   fr_parent_trace_id (pushed_frame s run_id trace_type name tags metadata) =
     get_current_trace_id (ctx s) \<and>
   ((traces (store (state_of (on_llm_start serialized prompts run_id None tags metadata s))) =
       traces (store s) \<and>
     local_stack (ctx (state_of (on_llm_start serialized prompts run_id None tags metadata s))) =
       local_stack (ctx s)) \<or>
    (\<exists>model.
       traces (store (state_of (on_llm_start serialized prompts run_id None tags metadata s))) =
         traces (store s) @ [pending_trace s run_id ''llm'' (''llm_'' @ model) tags metadata] \<and>
       local_stack (ctx (state_of (on_llm_start serialized prompts run_id None tags metadata s))) =
         local_stack (ctx s) @
           [pushed_frame s run_id ''llm'' (''llm_'' @ model) tags metadata])) \<and>
   ((traces (store (state_of (on_chain_start serialized inputs run_id None tags metadata s))) =
       traces (store s) \<and>
     local_stack (ctx (state_of (on_chain_start serialized inputs run_id None tags metadata s))) =
       local_stack (ctx s)) \<or>
    (\<exists>chain_name.
       traces (store (state_of (on_chain_start serialized inputs run_id None tags metadata s))) =
         traces (store s) @
           [pending_trace s run_id ''chain'' (''chain_'' @ chain_name) tags metadata] \<and>
       local_stack (ctx (state_of (on_chain_start serialized inputs run_id None tags metadata s))) =
         local_stack (ctx s) @
           [pushed_frame s run_id ''chain'' (''chain_'' @ chain_name) tags metadata])) \<and>
   (name_or_last_id serialized = Inr model \<and> stack_recorded s \<and>
    \<not> db_faults s (db_writes s) \<and> resolved_trace_id s run_id \<notin> trace_ids (store s) \<longrightarrow>
      traces (store (state_of (on_llm_start serialized prompts run_id None tags metadata s))) =
        traces (store s) @ [pending_trace s run_id ''llm'' (''llm_'' @ model) tags metadata] \<and>
      local_stack (ctx (state_of (on_llm_start serialized prompts run_id None tags metadata s))) =
        local_stack (ctx s) @ [pushed_frame s run_id ''llm'' (''llm_'' @ model) tags metadata]) \<and>
   (name_or_last_id serialized = Inr model \<and> stack_recorded s \<and>
    \<not> db_faults s (db_writes s) \<and> resolved_trace_id s run_id \<notin> trace_ids (store s) \<longrightarrow>
      traces (store (state_of (on_chain_start serialized inputs run_id None tags metadata s))) =
        traces (store s) @
          [pending_trace s run_id ''chain'' (''chain_'' @ model) tags metadata] \<and>
      local_stack (ctx (state_of (on_chain_start serialized inputs run_id None tags metadata s))) =
        local_stack (ctx s) @
          [pushed_frame s run_id ''chain'' (''chain_'' @ model) tags metadata])"
proof -
  have push: "fr_parent_trace_id
     (last (local_stack (push_trace trace_id trace_type name start_time md c))) =
     get_current_trace_id c"
    by (simp add: push_trace_def)
  have top: "get_current_trace_id c =
     (if local_stack c = [] then None else Some (fr_trace_id (last (local_stack c))))"
    by (simp add: get_current_trace_id_def)
  have rest: "butlast (local_stack (push_trace trace_id trace_type name start_time md c)) =
     local_stack c"
    by (simp add: push_trace_def)
  have row: "tr_parent_trace_id (pending_trace s run_id trace_type name tags metadata) =
     get_current_trace_id (ctx s)"
    by (simp add: pending_trace_def)
  have frame: "fr_parent_trace_id (pushed_frame s run_id trace_type name tags metadata) =
     get_current_trace_id (ctx s)"
    by (simp add: pushed_frame_def)
  have llm: "traces (store (state_of
          (on_llm_start serialized prompts run_id None tags metadata s))) =
        traces (store s) @ [pending_trace s run_id ''llm'' (''llm_'' @ model) tags metadata] \<and>
      local_stack (ctx (state_of
          (on_llm_start serialized prompts run_id None tags metadata s))) =
        local_stack (ctx s) @ [pushed_frame s run_id ''llm'' (''llm_'' @ model) tags metadata]"
    if "name_or_last_id serialized = Inr model \<and> stack_recorded s \<and>
        \<not> db_faults s (db_writes s) \<and> resolved_trace_id s run_id \<notin> trace_ids (store s)"
  proof -
    from that have "write_accepted s run_id" by (simp add: accepted_if_recorded)
    with that show ?thesis
      using on_llm_start_accepted[of serialized model s run_id prompts tags metadata]
      by (auto simp add: state_of_def)
  qed
  have chain: "traces (store (state_of
          (on_chain_start serialized inputs run_id None tags metadata s))) =
        traces (store s) @
          [pending_trace s run_id ''chain'' (''chain_'' @ model) tags metadata] \<and>
      local_stack (ctx (state_of
          (on_chain_start serialized inputs run_id None tags metadata s))) =
        local_stack (ctx s) @
          [pushed_frame s run_id ''chain'' (''chain_'' @ model) tags metadata]"
    if "name_or_last_id serialized = Inr model \<and> stack_recorded s \<and>
        \<not> db_faults s (db_writes s) \<and> resolved_trace_id s run_id \<notin> trace_ids (store s)"
  proof -
    from that have "write_accepted s run_id" by (simp add: accepted_if_recorded)
    with that show ?thesis
      using on_chain_start_accepted[of serialized model s run_id inputs tags metadata]
      by (auto simp add: state_of_def)
  qed
  show ?thesis
    using push top rest row frame llm chain
      on_llm_start_rows[of serialized prompts run_id tags metadata s]
      on_chain_start_rows[of serialized inputs run_id tags metadata s]
    by blast
qed

text \<open>The theorem at a chain started on the empty stack, and at a model call started
  inside that chain: the chain's trace is on top of the stack and becomes the parent of
  the model call's trace.\<close>

theorem push_records_top_as_parent_witness:
  "get_current_trace_id (ctx (initial_state (\<lambda>n. False))) = None \<and>
   map (\<lambda>r. (tr_trace_id r, tr_parent_trace_id r)) (traces (store after_chain_start)) =
     [(''trace-x'', None)] \<and>
   get_current_trace_id (ctx after_chain_start) = Some ''trace-x'' \<and>
   map (\<lambda>r. (tr_trace_id r, tr_parent_trace_id r))
     (traces (store (state_of
        (on_llm_start chat_model [''hi''] ''run-b'' None None None after_chain_start)))) =
     [(''trace-x'', None), (''trace-xx'', Some ''trace-x'')] \<and>
   map (\<lambda>f. (fr_trace_id f, fr_parent_trace_id f))
     (local_stack (ctx (state_of
        (on_llm_start chat_model [''hi''] ''run-b'' None None None after_chain_start)))) =
     [(''trace-x'', None), (''trace-xx'', Some ''trace-x'')]"
proof -
  have h0: "name_or_last_id demo_chain = Inr ''RunnableSequence'' \<and>
      stack_recorded (initial_state (\<lambda>n. False)) \<and>
      \<not> db_faults (initial_state (\<lambda>n. False)) (db_writes (initial_state (\<lambda>n. False))) \<and>
      resolved_trace_id (initial_state (\<lambda>n. False)) ''run-a'' \<notin>
        trace_ids (store (initial_state (\<lambda>n. False)))"
    by (simp add: name_or_last_id_def demo_chain_def py_index_def stack_recorded_def
        initial_state_def trace_ids_def empty_database_def)
  have h1: "name_or_last_id chat_model = Inr ''ChatGroq'' \<and>
      stack_recorded after_chain_start \<and>
      \<not> db_faults after_chain_start (db_writes after_chain_start) \<and>
      resolved_trace_id after_chain_start ''run-b'' \<notin> trace_ids (store after_chain_start)"
    by (simp add: chat_model_name after_chain_start_eq stack_recorded_def
        resolved_trace_id_def initial_state_def example_uuids_def trace_ids_def)
  note t0 = push_records_top_as_parent
      [of "''t''" "''chain''" "''n''" 0 None "ctx (initial_state (\<lambda>n. False))"
         "initial_state (\<lambda>n. False)" "''run-a''" None None demo_chain "[]"
         "''question''" "''RunnableSequence''"]
  note t1 = push_records_top_as_parent
      [of "''t''" "''llm''" "''n''" 0 None "ctx after_chain_start"
         after_chain_start "''run-b''" None None chat_model "[''hi'']"
         "''question''" "''ChatGroq''"]
  have c0: "traces (store after_chain_start) =
      traces (store (initial_state (\<lambda>n. False))) @
        [pending_trace (initial_state (\<lambda>n. False)) ''run-a'' ''chain''
           (''chain_'' @ ''RunnableSequence'') None None]"
    using t0 h0 unfolding after_chain_start_def by blast
  have c1: "traces (store (state_of
        (on_llm_start chat_model [''hi''] ''run-b'' None None None after_chain_start))) =
      traces (store after_chain_start) @
        [pending_trace after_chain_start ''run-b'' ''llm'' (''llm_'' @ ''ChatGroq'') None None]"
     "local_stack (ctx (state_of
        (on_llm_start chat_model [''hi''] ''run-b'' None None None after_chain_start))) =
      local_stack (ctx after_chain_start) @
        [pushed_frame after_chain_start ''run-b'' ''llm'' (''llm_'' @ ''ChatGroq'') None None]"
    using t1 h1 by blast+
  have e0: "get_current_trace_id (ctx (initial_state (\<lambda>n. False))) = None"
    by (simp add: initial_state_def get_current_trace_id_def)
  have e1: "map (\<lambda>r. (tr_trace_id r, tr_parent_trace_id r)) (traces (store after_chain_start)) =
     [(''trace-x'', None)]"
    unfolding c0
    by (simp add: pending_trace_def resolved_trace_id_def initial_state_def example_uuids_def
        get_current_trace_id_def empty_database_def)
  have e2: "get_current_trace_id (ctx after_chain_start) = Some ''trace-x''"
    by (simp add: after_chain_start_eq get_current_trace_id_def)
  have e3: "map (\<lambda>r. (tr_trace_id r, tr_parent_trace_id r))
     (traces (store (state_of
        (on_llm_start chat_model [''hi''] ''run-b'' None None None after_chain_start)))) =
     [(''trace-x'', None), (''trace-xx'', Some ''trace-x'')]"
    unfolding c1 using e1 e2
    by (simp add: pending_trace_def resolved_trace_id_def)
       (simp add: after_chain_start_eq initial_state_def example_uuids_def)
  have e4: "map (\<lambda>f. (fr_trace_id f, fr_parent_trace_id f))
     (local_stack (ctx (state_of
        (on_llm_start chat_model [''hi''] ''run-b'' None None None after_chain_start)))) =
     [(''trace-x'', None), (''trace-xx'', Some ''trace-x'')]"
    unfolding c1 using e2
    by (simp add: pushed_frame_def resolved_trace_id_def)
       (simp add: after_chain_start_eq initial_state_def example_uuids_def)
  from e0 e1 e2 e3 e4 show ?thesis by blast
qed

subsection \<open>The failure boundary\<close>

lemma entry_points_return_normally:
  "returns_normally (on_llm_start serialized prompts run_id parent_run_id tags metadata s) \<and>
   returns_normally (on_llm_end response run_id parent_run_id s) \<and>
   returns_normally (on_llm_error error run_id parent_run_id s) \<and>
   returns_normally (on_chain_start serialized inputs run_id parent_run_id tags metadata s) \<and>
   returns_normally (on_chain_end outputs run_id parent_run_id s) \<and>
   returns_normally (on_chain_error error run_id parent_run_id s) \<and>
   returns_normally (on_tool_start serialized input_str run_id parent_run_id tags metadata s) \<and>
   returns_normally (on_tool_end tool_output run_id parent_run_id s) \<and>
   returns_normally (on_tool_error error run_id parent_run_id s) \<and>
   returns_normally (on_agent_action action run_id parent_run_id s) \<and>
   returns_normally (on_agent_finish finish run_id parent_run_id s)"
proof (intro conjI)
  show "returns_normally
      (on_llm_start serialized prompts run_id parent_run_id tags metadata s)"
    unfolding on_llm_start_def by (intro safe_execute_returns roe_on_llm_start_body)
  show "returns_normally (on_llm_end response run_id parent_run_id s)"
    unfolding on_llm_end_def by (intro safe_execute_returns roe_on_llm_end_body)
  show "returns_normally (on_llm_error error run_id parent_run_id s)"
    unfolding on_llm_error_def by (intro safe_execute_returns roe_on_llm_error_body)
  show "returns_normally
      (on_chain_start serialized inputs run_id parent_run_id tags metadata s)"
    unfolding on_chain_start_def by (intro safe_execute_returns roe_on_chain_start_body)
  show "returns_normally (on_chain_end outputs run_id parent_run_id s)"
    unfolding on_chain_end_def by (intro safe_execute_returns roe_on_chain_end_body)
  show "returns_normally (on_chain_error error run_id parent_run_id s)"
    unfolding on_chain_error_def by (intro safe_execute_returns roe_on_chain_error_body)
  show "returns_normally
      (on_tool_start serialized input_str run_id parent_run_id tags metadata s)"
    unfolding on_tool_start_def by (intro safe_execute_returns roe_on_tool_start_body)
  show "returns_normally (on_tool_end tool_output run_id parent_run_id s)"
    unfolding on_tool_end_def by (intro safe_execute_returns roe_on_tool_end_body)
  show "returns_normally (on_tool_error error run_id parent_run_id s)"
    unfolding on_tool_error_def by (intro safe_execute_returns roe_on_tool_error_body)
  show "returns_normally (on_agent_action action run_id parent_run_id s)"
    unfolding on_agent_action_def by (intro safe_execute_returns roe_on_agent_action_body)
  show "returns_normally (on_agent_finish finish run_id parent_run_id s)"
    unfolding on_agent_finish_def by (intro safe_execute_returns roe_on_agent_finish_body)
qed

lemma safe_execute_catches:
  "is_Exception e \<Longrightarrow> func s = Raises e s' \<Longrightarrow>
     safe_execute func s = Returns () (s'\<lparr>printed := printed s' @ [e]\<rparr>)"
  by (simp add: safe_execute_def)

lemma llm_end_without_usage_raises:
  "run_id_to_trace_id s run_id = Some tid \<Longrightarrow>
   res_llm_output response =
     Some \<lparr>lo_token_usage = Null, lo_model_name = Absent, lo_model = Absent\<rparr> \<Longrightarrow>
   \<exists>s'. on_llm_end_body response run_id parent_run_id s = Raises AttributeError s' \<and>
        store s' = store s \<and>
        local_stack (ctx s') = butlast (local_stack (ctx s))"
  by (simp add: on_llm_end_body_def and_then_def get_or_create_known
        get_current_timestamp_def recorded_start_time_def gets_def context_pop_def
        pop_trace_def dict_get_def usage_get_def lift_result_def Let_def)

lemmas end_defs =
  on_llm_end_def on_llm_end_body_def recorded_start_time_def context_pop_def
  update_trace_completion_def create_llm_call_def update_trace_def insert_llm_call_def
  del_run_id_to_trace_id_def del_run_start_times_def calculate_duration_ms_def pop_trace_def
  dict_get_def usage_get_def py_add_def calculate_cost_of_def
  calculate_cost_def pricing_for_def GROQ_PRICING_def truncate_string_def
  MAX_PROMPT_LENGTH_def MAX_RESPONSE_LENGTH_def

lemma after_failed_llm_call:
  "after_llm_call (\<lambda>n. n = 2) =
     after_chain_start
       \<lparr>run_id_to_trace_id := [''run-a'' \<mapsto> ''trace-x'', ''run-b'' \<mapsto> ''trace-xx''],
        run_start_times := [''run-a'' \<mapsto> 1000, ''run-b'' \<mapsto> 1001],
        ctx := \<lparr>local_stack = [], local_session_id = Some ''my_session_123''\<rparr>,
        uuid_calls := 2, clock_calls := 3, db_faults := (\<lambda>n. n = 2), db_writes := 5,
        printed := [OperationalError, IntegrityError]\<rparr>"
  by (simp add: after_llm_call_def after_chain_start_eq callback_defs end_defs
        initial_state_def example_uuids_def chat_model_def example_response_def)

lemma after_clean_llm_call:
  "store (after_llm_call (\<lambda>n. False)) =
     (store after_chain_start)
       \<lparr>traces :=
          traces (store after_chain_start) @
            [\<lparr>tr_trace_id = ''trace-xx'', tr_parent_trace_id = Some ''trace-x'',
              tr_session_id = Some ''my_session_123'', tr_trace_type = ''llm'',
              tr_name = ''llm_ChatGroq'', tr_start_time = 1001, tr_end_time = Some 1002,
              tr_duration_ms = Some 1000, tr_status = ''success'', tr_error_message = None,
              tr_metadata = Some [(''user_id'', JStr ''user_456'')]\<rparr>],
        llm_calls :=
          [\<lparr>lc_trace_id = ''trace-xx'', lc_model = ''llama3-70b-8192'',
            lc_provider = ''groq'', lc_prompt = [], lc_system_prompt = None,
            lc_response = ''Observability is insight.'', lc_input_tokens = Some 1000000,
            lc_output_tokens = Some 0, lc_total_tokens = Some 1000000,
            lc_cost_usd = 0.59\<rparr>]\<rparr> \<and>
   ctx (after_llm_call (\<lambda>n. False)) = ctx after_chain_start \<and>
   db_faults (after_llm_call (\<lambda>n. False)) = (\<lambda>n. False) \<and>
   clock (after_llm_call (\<lambda>n. False)) = (\<lambda>n. 1000 + real n) \<and>
   clock_calls (after_llm_call (\<lambda>n. False)) = 3 \<and>
   enable_prompt_logging (after_llm_call (\<lambda>n. False))"
  by (simp add: after_llm_call_def after_chain_start_eq callback_defs end_defs
        initial_state_def example_uuids_def chat_model_def example_response_def)

text \<open>
  Claim C2 at a store whose third write fails. A chain \<open>run-a\<close> is open and its trace is on
  the stack. The start of a model call \<open>run-b\<close> inside it raises at the write of its
  trace, before the push; the entry point returns normally and records nothing. The end
  of \<open>run-b\<close> returns normally too, and pops the stack as every end does, which removes
  the frame of the chain. An agent step of the chain, notified without
  \<open>parent_run_id\<close>, then finds no current trace and writes no event. On the same
  notifications without the fault, the stack after the model call holds the chain's frame
  and the agent step is written as an event of the chain's trace. The failure while
  recording the model call has prevented the recording of the agent step.
\<close>

theorem failed_start_prevents_later_agent_event:
  "returns_normally
     (on_llm_start chat_model [''hi''] ''run-b'' None None None
        (after_chain_start\<lparr>db_faults := (\<lambda>n. n = 2)\<rparr>)) \<and>
   traces (store (state_of
     (on_llm_start chat_model [''hi''] ''run-b'' None None None
        (after_chain_start\<lparr>db_faults := (\<lambda>n. n = 2)\<rparr>)))) =
     traces (store after_chain_start) \<and>
   local_stack (ctx (state_of
     (on_llm_start chat_model [''hi''] ''run-b'' None None None
        (after_chain_start\<lparr>db_faults := (\<lambda>n. n = 2)\<rparr>)))) =
     local_stack (ctx after_chain_start) \<and>
   get_current_trace_id (ctx after_chain_start) = Some ''trace-x'' \<and>
   get_current_trace_id (ctx (after_llm_call (\<lambda>n. n = 2))) = None \<and>
   get_current_trace_id (ctx (after_llm_call (\<lambda>n. False))) = Some ''trace-x'' \<and>
   returns_normally
     (on_agent_action example_action ''run-a'' None (after_llm_call (\<lambda>n. n = 2))) \<and>
   events (store (state_of
     (on_agent_action example_action ''run-a'' None (after_llm_call (\<lambda>n. n = 2))))) =
     events (store after_chain_start) \<and>
   events (store (state_of
     (on_agent_action example_action ''run-a'' None (after_llm_call (\<lambda>n. False))))) =
     events (store after_chain_start) @
       [\<lparr>ev_trace_id = ''trace-x'', ev_event_type = ''agent_action'',
         ev_event_name = ''search'', ev_timestamp = 1003,
         ev_data = Some [(''tool'', ''search''), (''tool_input'', ''observability''),
                         (''log'', ''Action: search'')]\<rparr>]"
proof -
  have start: "on_llm_start chat_model [''hi''] ''run-b'' None None None
        (after_chain_start\<lparr>db_faults := (\<lambda>n. n = 2)\<rparr>) =
      Returns ()
        (after_chain_start
           \<lparr>run_id_to_trace_id := [''run-a'' \<mapsto> ''trace-x'', ''run-b'' \<mapsto> ''trace-xx''],
            run_start_times := [''run-a'' \<mapsto> 1000, ''run-b'' \<mapsto> 1001],
            uuid_calls := 2, clock_calls := 2, db_faults := (\<lambda>n. n = 2), db_writes := 3,
            printed := [OperationalError]\<rparr>)"
    by (simp add: after_chain_start_eq callback_defs initial_state_def example_uuids_def
        chat_model_def)
  have lost: "on_agent_action example_action ''run-a'' None (after_llm_call (\<lambda>n. n = 2)) =
      Returns () (after_llm_call (\<lambda>n. n = 2))"
    by (simp add: after_failed_llm_call on_agent_action_def on_agent_action_body_def
        safe_execute_def and_then_def parent_or_current_def gets_def
        get_current_trace_id_def)
  have kept: "events (store (state_of
     (on_agent_action example_action ''run-a'' None (after_llm_call (\<lambda>n. False))))) =
     events (store after_chain_start) @
       [\<lparr>ev_trace_id = ''trace-x'', ev_event_type = ''agent_action'',
         ev_event_name = ''search'', ev_timestamp = 1003,
         ev_data = Some [(''tool'', ''search''), (''tool_input'', ''observability''),
                         (''log'', ''Action: search'')]\<rparr>]"
    using after_clean_llm_call
    by (simp add: on_agent_action_def on_agent_action_body_def safe_execute_def and_then_def
        parent_or_current_def gets_def get_current_trace_id_def get_current_timestamp_def
        create_event_def execute_write_def insert_event_def logged_def json_or_null_def
        example_action_def state_of_def Let_def trace_ids_def after_chain_start_eq)
  show ?thesis
    unfolding start lost kept
    using after_clean_llm_call
    by (simp add: state_of_def returns_normally_def after_failed_llm_call
        get_current_trace_id_def)
       (simp add: after_chain_start_eq)
qed

subsection \<open>A failed start and a later start\<close>

text \<open>
  In the same situation, a later start without \<open>parent_run_id\<close> is recorded with what is
  then on top of the stack, here nothing, although the chain is still open.
\<close>

lemma failed_start_then_end_pops_the_parent:
  "map (\<lambda>r. (tr_trace_id r, tr_parent_trace_id r))
     (traces (store (state_of
        (on_llm_start chat_model [''hi''] ''run-c'' None None None
           (after_llm_call (\<lambda>n. n = 2)))))) =
     [(''trace-x'', None), (''trace-xxx'', None)]"
  by (simp add: after_failed_llm_call after_chain_start_eq callback_defs initial_state_def
        example_uuids_def chat_model_def numeral_3_eq_3)

end
